theory Spec2Isabelle
  imports Main "HOL-Library.Word"
begin

unbundle bit_operations_syntax

section \<open>Data model of the connection core\<close>

text \<open>
  The development embeds the connection object of package transport (type Conn and its
  methods). Byte slices are lists of bytes, a nil slice is the empty list (the code asks for
  their length and compares them with bytes.Equal); the one write into an array that two
  slices share is written out where it happens, in recvPacketInitial. A time.Time is the
  number of nanoseconds since the zero instant, so that IsZero is equality with 0; a
  time.Duration is a number of nanoseconds.

  The modules the connection is composed with (frame and packet codec, packet number
  space, stream buffers, loss recovery, TLS adapter) are parameters: their state is a type
  variable where the connection never looks inside it, and their methods are the fields of
  an environment record. The type variables are \<open>'k\<close> (an AEAD opener or sealer),
  \<open>'h\<close> (the TLS handshake), \<open>'r\<close> (loss-recovery bookkeeping), \<open>'rb\<close> and
  \<open>'sb\<close> (receive and send buffer of a stream). The log callback receives copies of
  packets and frames and cannot reach the connection, so it is left out.
\<close>

type_synonym bytes = "8 word list"
type_synonym uint64 = "64 word"
type_synonym uint32 = "32 word"
type_synonym Time = int
type_synonym Duration = int

definition IsZero :: "Time \<Rightarrow> bool" where
  "IsZero t = (t = 0)"

definition time_Add :: "Time \<Rightarrow> Duration \<Rightarrow> Time" where
  "time_Add t d = t + d"

definition minDuration :: Duration where
  "minDuration = - (2 ^ 63)"

definition maxDuration :: Duration where
  "maxDuration = 2 ^ 63 - 1"

definition time_Sub :: "Time \<Rightarrow> Time \<Rightarrow> Duration" where
  \<comment> \<open>t.Sub(u): the difference, saturated to the range of a 64-bit Duration.\<close>
  "time_Sub t u =
     (let d = t - u in
      if d < minDuration then minDuration else if maxDuration < d then maxDuration else d)"

definition time_Until :: "Time \<Rightarrow> Time \<Rightarrow> Duration" where
  \<comment> \<open>time.Until(t) with the wall clock reading \<open>now\<close>.\<close>
  "time_Until now t = time_Sub t now"

datatype connectionState =
  stateAttempted | stateHandshake | stateActive | stateDraining | stateClosed

fun stateOrd :: "connectionState \<Rightarrow> nat" where
  "stateOrd stateAttempted = 0"
| "stateOrd stateHandshake = 1"
| "stateOrd stateActive = 2"
| "stateOrd stateDraining = 3"
| "stateOrd stateClosed = 4"

datatype packetSpace = packetSpaceInitial | packetSpaceHandshake | packetSpaceApplication

datatype packetType =
  packetTypeInitial | packetTypeZeroRTT | packetTypeHandshake | packetTypeRetry
| packetTypeVersionNegotiation | packetTypeShort | packetTypeOther nat

datatype errorCode =
  NoError | InternalError | ConnectionRefused | FlowControlError | StreamLimitError
| StreamStateError | FinalSizeError | FrameEncodingError | TransportParameterError
| ProtocolViolation | CryptoError nat

subsection \<open>Frames\<close>

type_synonym rangeSet = "(uint64 \<times> uint64) list"

datatype ackFrame = ackFrame (largestAck: uint64) (ackDelay: uint64) (ackRanges: rangeSet)

datatype resetStreamFrame =
  resetStreamFrame (rs_streamID: uint64) (rs_errorCode: uint64) (rs_finalSize: uint64)

datatype stopSendingFrame = stopSendingFrame (ss_streamID: uint64) (ss_errorCode: uint64)

datatype cryptoFrame = cryptoFrame (cf_data: bytes) (cf_offset: uint64)

datatype streamFrame =
  streamFrame (sf_streamID: uint64) (sf_data: bytes) (sf_offset: uint64) (sf_fin: bool)

datatype maxDataFrame = maxDataFrame (md_maximumData: uint64)

datatype maxStreamDataFrame =
  maxStreamDataFrame (msd_streamID: uint64) (msd_maximumData: uint64)

datatype maxStreamsFrame = maxStreamsFrame (ms_bidi: bool) (ms_maximumStreams: uint64)

datatype connectionCloseFrame =
  connectionCloseFrame (application: bool) (cc_errorCode: uint64) (reasonPhrase: bytes)

text \<open>The interface type frame, as far as the connection switches on its dynamic type.\<close>

datatype frame =
  F_padding nat
| F_ping
| F_ack ackFrame
| F_resetStream resetStreamFrame
| F_stopSending stopSendingFrame
| F_crypto cryptoFrame
| F_newToken bytes
| F_stream streamFrame
| F_maxData maxDataFrame
| F_maxStreamData maxStreamDataFrame
| F_maxStreams maxStreamsFrame
| F_connectionClose connectionCloseFrame
| F_handshakeDone

subsection \<open>Errors\<close>

text \<open>
  sprint formats its operands into the message of an error; the operands are kept and the
  formatting is not modelled.
\<close>

datatype errorMessage =
  Text string
| Sprint string uint64
| SprintVersions string "uint32 list"
| SprintType string packetType
| SprintAck string ackFrame

text \<open>
  An error value: one built by newError, one of the package's error variables, a run-time
  panic, or an error of a collaborator (the random source, the TLS engine).
\<close>

datatype error =
  newError errorCode errorMessage
| errFlowControl
| errInvalidToken
| errShortBuffer
| runtimePanic errorMessage
| externalError string

text \<open>
  Modelled from the spec: the constants of the frame types are not among the sources. The
  wire is that of QUIC version 1 with the frame set of the data model, and these are its
  type bytes; STREAM frames take the eight types from 0x08 to 0x0f, by their flag bits.
\<close>

definition frameTypePadding :: uint64 where "frameTypePadding = 0x00"
definition frameTypePing :: uint64 where "frameTypePing = 0x01"
definition frameTypeAck :: uint64 where "frameTypeAck = 0x02"
definition frameTypeResetStream :: uint64 where "frameTypeResetStream = 0x04"
definition frameTypeStopSending :: uint64 where "frameTypeStopSending = 0x05"
definition frameTypeCrypto :: uint64 where "frameTypeCrypto = 0x06"
definition frameTypeNewToken :: uint64 where "frameTypeNewToken = 0x07"
definition frameTypeStream :: uint64 where "frameTypeStream = 0x08"
definition frameTypeStreamEnd :: uint64 where "frameTypeStreamEnd = 0x0f"
definition frameTypeMaxData :: uint64 where "frameTypeMaxData = 0x10"
definition frameTypeMaxStreamData :: uint64 where "frameTypeMaxStreamData = 0x11"
definition frameTypeMaxStreamsBidi :: uint64 where "frameTypeMaxStreamsBidi = 0x12"
definition frameTypeMaxStreamsUni :: uint64 where "frameTypeMaxStreamsUni = 0x13"
definition frameTypeDataBlocked :: uint64 where "frameTypeDataBlocked = 0x14"
definition frameTypeStreamDataBlocked :: uint64 where "frameTypeStreamDataBlocked = 0x15"
definition frameTypeStreamsBlockedBidi :: uint64 where "frameTypeStreamsBlockedBidi = 0x16"
definition frameTypeStreamsBlockedUni :: uint64 where "frameTypeStreamsBlockedUni = 0x17"
definition frameTypeConnectionClose :: uint64 where "frameTypeConnectionClose = 0x1c"
definition frameTypeApplicationClose :: uint64 where "frameTypeApplicationClose = 0x1d"
definition frameTypeHanshakeDone :: uint64 where "frameTypeHanshakeDone = 0x1e"

definition isFrameAckEliciting :: "uint64 \<Rightarrow> bool" where
  \<comment> \<open>Modelled from the spec: isFrameAckEliciting is not among the sources. A frame is
      ack-eliciting iff it is not one of PADDING, ACK, CONNECTION_CLOSE.\<close>
  "isFrameAckEliciting ftyp =
     (ftyp \<noteq> frameTypePadding \<and> ftyp \<noteq> frameTypeAck
      \<and> ftyp \<noteq> frameTypeConnectionClose \<and> ftyp \<noteq> frameTypeApplicationClose)"

subsection \<open>Flow control, streams, packet number spaces, recovery\<close>

record flowControl =
  maxRecv :: uint64
  maxRecvNext :: uint64
  totalRecv :: uint64
  maxSend :: uint64
  totalSend :: uint64

definition canRecv :: "flowControl \<Rightarrow> uint64" where
  \<comment> \<open>Modelled from the spec: flowControl.canRecv is not among the sources;
      canRecv() = max-recv - received.\<close>
  "canRecv f = maxRecv f - totalRecv f"

definition addRecv :: "flowControl \<Rightarrow> int \<Rightarrow> flowControl" where
  \<comment> \<open>Modelled from the spec: flowControl.addRecv is not among the sources; it adds the
      n bytes to the received counter.\<close>
  "addRecv f n = f\<lparr>totalRecv := totalRecv f + word_of_int n\<rparr>"

record ('rb, 'sb) Stream =
  st_recv :: 'rb
  st_send :: 'sb
  st_flow :: flowControl
  connFlow :: bool  \<comment> \<open>whether the pointer to the connection's flow controller is set\<close>
  st_updateMaxData :: bool

record ('rb, 'sb) streamMap =
  sm_streams :: "uint64 \<rightharpoonup> ('rb, 'sb) Stream"
  maxStreamsBidi :: uint64
  maxStreamsUni :: uint64
  peerMaxStreamsBidi :: uint64
  peerMaxStreamsUni :: uint64

definition streams_get :: "('rb, 'sb) streamMap \<Rightarrow> uint64 \<Rightarrow> ('rb, 'sb) Stream option" where
  "streams_get sm sid = sm_streams sm sid"

definition isStreamLocal :: "uint64 \<Rightarrow> bool \<Rightarrow> bool" where
  \<comment> \<open>Modelled from the spec: isStreamLocal is not among the sources. Bit 0 of the ID:
      0 = client-initiated, 1 = server-initiated.\<close>
  "isStreamLocal sid isClient = ((sid AND 1 = 0) = isClient)"

definition isStreamBidi :: "uint64 \<Rightarrow> bool" where
  \<comment> \<open>Modelled from the spec: isStreamBidi is not among the sources. Bit 1 of the ID:
      0 = bidirectional, 1 = unidirectional.\<close>
  "isStreamBidi sid = (sid AND 2 = 0)"

record ('k, 'rb, 'sb) packetNumberSpace =
  opener :: "'k option"
  sealer :: "'k option"
  nextPacketNumber :: uint64
  largestRecvPacketTime :: Time
  recvPacketNeedAck :: rangeSet
  ackElicited :: bool
  firstPacketAcked :: bool
  cryptoStream :: "('rb, 'sb) Stream"

definition canDecrypt :: "('k, 'rb, 'sb) packetNumberSpace \<Rightarrow> bool" where
  \<comment> \<open>Modelled from the spec: packetNumberSpace.canDecrypt is not among the sources;
      canDecrypt() is true iff the opener is present.\<close>
  "canDecrypt sp = (opener sp \<noteq> None)"

record 'r lossRecovery =
  lossDetectionTimer :: Time
  probes :: int
  maxAckDelay :: Duration
  lost :: "packetSpace \<Rightarrow> frame list"
  rec_state :: 'r

record outgoingPacket =
  op_packetNumber :: uint64
  op_frames :: "frame list"
  timeSent :: Time
  op_size :: uint64
  ackEliciting :: bool

record Parameters =
  OriginalDestinationCID :: bytes
  InitialSourceCID :: bytes
  RetrySourceCID :: bytes
  StatelessResetToken :: bytes
  MaxIdleTimeout :: Duration
  MaxUDPPayloadSize :: uint64
  InitialMaxData :: uint64
  InitialMaxStreamDataBidiLocal :: uint64
  InitialMaxStreamDataBidiRemote :: uint64
  InitialMaxStreamDataUni :: uint64
  InitialMaxStreamsBidi :: uint64
  InitialMaxStreamsUni :: uint64
  AckDelayExponent :: uint64
  MaxAckDelay :: Duration

datatype Event =
  StreamRecvEvent uint64
| StreamResetEvent uint64 uint64
| StreamStopEvent uint64 uint64
| StreamCompleteEvent uint64

record packetHeader =
  hdr_version :: uint32
  dcil :: nat
  hdr_dcid :: bytes
  hdr_scid :: bytes

record packet =
  p_typ :: packetType
  header :: packetHeader
  headerLen :: nat
  p_token :: bytes
  supportedVersions :: "uint32 list"
  packetNumber :: uint64
  payloadLen :: nat

subsection \<open>The connection\<close>

record ('k, 'h, 'r, 'rb, 'sb) Conn =
  isClient :: bool
  version :: uint32
  scid :: bytes
  dcid :: bytes
  odcid :: bytes
  rscid :: bytes
  token :: bytes
  packetNumberSpaces :: "packetSpace \<Rightarrow> ('k, 'rb, 'sb) packetNumberSpace"
  streams :: "('rb, 'sb) streamMap"
  localParams :: Parameters
  peerParams :: Parameters
  handshake :: 'h
  recovery :: "'r lossRecovery"
  flow :: flowControl
  state :: connectionState
  gotPeerCID :: bool
  didRetry :: bool
  didVersionNegotiation :: bool
  ackElicitingSent :: bool
  handshakeConfirmed :: bool
  derivedInitialSecrets :: bool
  updateMaxData :: bool
  closeFrame :: "connectionCloseFrame option"
  idleTimer :: Time
  drainingTimer :: Time
  events :: "Event list"

section \<open>The timer query\<close>

definition Timeout :: "Time \<Rightarrow> ('k, 'h, 'r, 'rb, 'sb) Conn \<Rightarrow> Duration" where
  "Timeout now s =
     (if state s = stateClosed then - 1
      else
        case (if \<not> IsZero (drainingTimer s) then Some (drainingTimer s)
              else if \<not> IsZero (lossDetectionTimer (recovery s))
                then Some (lossDetectionTimer (recovery s))
              else if \<not> IsZero (idleTimer s) then Some (idleTimer s)
              else None) of
          None \<Rightarrow> - 1
        | Some deadline \<Rightarrow>
            (let timeout = time_Until now deadline in if timeout < 0 then 0 else timeout))"

definition deadlines_set :: "('k, 'h, 'r, 'rb, 'sb) Conn \<Rightarrow> Time list" where
  \<comment> \<open>The spec's words: the deadlines, among draining, loss detection and idle, that are set.\<close>
  "deadlines_set s =
     filter (\<lambda>t. \<not> IsZero t) [drainingTimer s, lossDetectionTimer (recovery s), idleTimer s]"

definition spec_Timeout :: "Time \<Rightarrow> ('k, 'h, 'r, 'rb, 'sb) Conn \<Rightarrow> Duration" where
  \<comment> \<open>The spec's words: the duration to the earliest of the deadlines that are set, clamped
      below at zero; disarmed when closed or none is set.\<close>
  "spec_Timeout now s =
     (if state s = stateClosed \<or> deadlines_set s = [] then - 1
      else max 0 (time_Until now (fold min (deadlines_set s) (hd (deadlines_set s)))))"

section \<open>Zero values\<close>

text \<open>
  The zero value of each struct, as Go allocates it; the zero values of the collaborators'
  types are arguments.
\<close>

definition zeroFlow :: flowControl where
  "zeroFlow = \<lparr>maxRecv = 0, maxRecvNext = 0, totalRecv = 0, maxSend = 0, totalSend = 0\<rparr>"

definition zeroStream :: "'rb \<Rightarrow> 'sb \<Rightarrow> ('rb, 'sb) Stream" where
  "zeroStream rb sb =
     \<lparr>st_recv = rb, st_send = sb, st_flow = zeroFlow, connFlow = False,
      st_updateMaxData = False\<rparr>"

definition zeroStreamMap :: "('rb, 'sb) streamMap" where
  "zeroStreamMap =
     \<lparr>sm_streams = Map.empty, maxStreamsBidi = 0, maxStreamsUni = 0,
      peerMaxStreamsBidi = 0, peerMaxStreamsUni = 0\<rparr>"

definition zeroSpace :: "'rb \<Rightarrow> 'sb \<Rightarrow> ('k, 'rb, 'sb) packetNumberSpace" where
  "zeroSpace rb sb =
     \<lparr>opener = None, sealer = None, nextPacketNumber = 0, largestRecvPacketTime = 0,
      recvPacketNeedAck = [], ackElicited = False, firstPacketAcked = False,
      cryptoStream = zeroStream rb sb\<rparr>"

definition zeroRecovery :: "'r \<Rightarrow> 'r lossRecovery" where
  "zeroRecovery r =
     \<lparr>lossDetectionTimer = 0, probes = 0, maxAckDelay = 0, lost = (\<lambda>_. []), rec_state = r\<rparr>"

definition zeroParams :: Parameters where
  "zeroParams =
     \<lparr>OriginalDestinationCID = [], InitialSourceCID = [], RetrySourceCID = [],
      StatelessResetToken = [], MaxIdleTimeout = 0, MaxUDPPayloadSize = 0,
      InitialMaxData = 0, InitialMaxStreamDataBidiLocal = 0,
      InitialMaxStreamDataBidiRemote = 0, InitialMaxStreamDataUni = 0,
      InitialMaxStreamsBidi = 0, InitialMaxStreamsUni = 0, AckDelayExponent = 0,
      MaxAckDelay = 0\<rparr>"

definition zeroConn :: "'h \<Rightarrow> 'r \<Rightarrow> 'rb \<Rightarrow> 'sb \<Rightarrow> ('k, 'h, 'r, 'rb, 'sb) Conn" where
  "zeroConn h r rb sb =
     \<lparr>isClient = False, version = 0, scid = [], dcid = [], odcid = [], rscid = [],
      token = [], packetNumberSpaces = (\<lambda>_. zeroSpace rb sb), streams = zeroStreamMap,
      localParams = zeroParams, peerParams = zeroParams, handshake = h,
      recovery = zeroRecovery r, flow = zeroFlow, state = stateAttempted,
      gotPeerCID = False, didRetry = False, didVersionNegotiation = False,
      ackElicitingSent = False, handshakeConfirmed = False, derivedInitialSecrets = False,
      updateMaxData = False, closeFrame = None, idleTimer = 0, drainingTimer = 0,
      events = []\<rparr>"

type_synonym conn0 = "(unit, unit, unit, unit, unit) Conn"

definition unitConn :: conn0 where
  "unitConn = zeroConn () () () ()"

section \<open>The collaborators of the connection\<close>

text \<open>
  The methods of the modules that are not part of the connection's own source, as the
  connection calls them. A method that mutates its receiver returns the new receiver; one
  that can fail returns an error or a result. A decoder returns the number of bytes it
  consumed.
\<close>

record codec =
  getVarint :: "bytes \<Rightarrow> nat \<times> uint64"
  decodeHeader :: "packet \<Rightarrow> bytes \<Rightarrow> error + packet"
  decodeBody :: "packet \<Rightarrow> bytes \<Rightarrow> error + nat \<times> packet"
  verifyRetryIntegrity :: "bytes \<Rightarrow> bytes \<Rightarrow> bool"
  versionSupported :: "uint32 \<Rightarrow> bool"
  toRangeSet :: "ackFrame \<Rightarrow> rangeSet option"
  newAckFrame :: "uint64 \<Rightarrow> rangeSet \<Rightarrow> ackFrame"
  decodePadding :: "bytes \<Rightarrow> error + nat"
  decodeAck :: "bytes \<Rightarrow> error + ackFrame \<times> nat"
  decodeResetStream :: "bytes \<Rightarrow> error + resetStreamFrame \<times> nat"
  decodeStopSending :: "bytes \<Rightarrow> error + stopSendingFrame \<times> nat"
  decodeCrypto :: "bytes \<Rightarrow> error + cryptoFrame \<times> nat"
  decodeNewToken :: "bytes \<Rightarrow> error + nat"
  decodeStream :: "bytes \<Rightarrow> error + streamFrame \<times> nat"
  decodeMaxData :: "bytes \<Rightarrow> error + maxDataFrame \<times> nat"
  decodeMaxStreamData :: "bytes \<Rightarrow> error + maxStreamDataFrame \<times> nat"
  decodeMaxStreams :: "bytes \<Rightarrow> error + maxStreamsFrame \<times> nat"
  decodeDataBlocked :: "bytes \<Rightarrow> error + nat"
  decodeStreamDataBlocked :: "bytes \<Rightarrow> error + nat"
  decodeStreamsBlocked :: "bytes \<Rightarrow> error + nat"
  decodeConnectionClose :: "bytes \<Rightarrow> error + connectionCloseFrame \<times> nat"
  decodeHandshakeDone :: "bytes \<Rightarrow> error + nat"

record ('k, 'rb, 'sb) spaceOps =
  space_init :: "('k, 'rb, 'sb) packetNumberSpace \<Rightarrow> ('k, 'rb, 'sb) packetNumberSpace"
  space_reset :: "('k, 'rb, 'sb) packetNumberSpace \<Rightarrow> ('k, 'rb, 'sb) packetNumberSpace"
  space_drop :: "('k, 'rb, 'sb) packetNumberSpace \<Rightarrow> ('k, 'rb, 'sb) packetNumberSpace"
  decryptPacket ::
    "('k, 'rb, 'sb) packetNumberSpace \<Rightarrow> bytes \<Rightarrow> packet \<Rightarrow> error + bytes \<times> nat \<times> packet"
  isPacketReceived :: "('k, 'rb, 'sb) packetNumberSpace \<Rightarrow> uint64 \<Rightarrow> bool"
  onPacketReceived ::
    "('k, 'rb, 'sb) packetNumberSpace \<Rightarrow> uint64 \<Rightarrow> Time \<Rightarrow> ('k, 'rb, 'sb) packetNumberSpace"
  removeUntil :: "rangeSet \<Rightarrow> uint64 \<Rightarrow> rangeSet"
  initialAEAD :: "bytes \<Rightarrow> 'k \<times> 'k"  \<comment> \<open>the client and the server protection\<close>

record ('rb, 'sb) streamOps =
  recv_zero :: 'rb
  send_zero :: 'sb
  pushRecv ::
    "('rb, 'sb) Stream \<Rightarrow> bytes \<Rightarrow> uint64 \<Rightarrow> bool \<Rightarrow> error option \<times> ('rb, 'sb) Stream"
  recv_reset :: "'rb \<Rightarrow> uint64 \<Rightarrow> (error + int) \<times> 'rb"
  send_push :: "'sb \<Rightarrow> bytes \<Rightarrow> uint64 \<Rightarrow> bool \<Rightarrow> error option \<times> 'sb"
  send_ack :: "'sb \<Rightarrow> uint64 \<Rightarrow> uint64 \<Rightarrow> 'sb"
  send_complete :: "'sb \<Rightarrow> bool"
  ackMaxData :: "('rb, 'sb) Stream \<Rightarrow> ('rb, 'sb) Stream"
  streams_init :: "('rb, 'sb) streamMap \<Rightarrow> uint64 \<Rightarrow> uint64 \<Rightarrow> ('rb, 'sb) streamMap"
  streams_create ::
    "('rb, 'sb) streamMap \<Rightarrow> uint64 \<Rightarrow> bool \<Rightarrow> bool
     \<Rightarrow> error + ('rb, 'sb) Stream \<times> ('rb, 'sb) streamMap"
  setPeerMaxStreamsBidi :: "('rb, 'sb) streamMap \<Rightarrow> uint64 \<Rightarrow> ('rb, 'sb) streamMap"
  setPeerMaxStreamsUni :: "('rb, 'sb) streamMap \<Rightarrow> uint64 \<Rightarrow> ('rb, 'sb) streamMap"
  flow_init :: "flowControl \<Rightarrow> uint64 \<Rightarrow> uint64 \<Rightarrow> flowControl"
  setMaxSend :: "flowControl \<Rightarrow> uint64 \<Rightarrow> flowControl"

record 'r recoveryOps =
  recovery_zero :: 'r
  recovery_init :: "'r lossRecovery \<Rightarrow> Time \<Rightarrow> 'r lossRecovery"
  onAckReceived ::
    "'r lossRecovery \<Rightarrow> rangeSet \<Rightarrow> Duration \<Rightarrow> packetSpace \<Rightarrow> Time \<Rightarrow> 'r lossRecovery"
  dropUnackedData :: "'r lossRecovery \<Rightarrow> packetSpace \<Rightarrow> 'r lossRecovery"
  drainAcked :: "'r lossRecovery \<Rightarrow> packetSpace \<Rightarrow> frame list \<times> 'r lossRecovery"
  drainLost :: "'r lossRecovery \<Rightarrow> packetSpace \<Rightarrow> frame list \<times> 'r lossRecovery"
  recovery_onPacketSent ::
    "'r lossRecovery \<Rightarrow> outgoingPacket \<Rightarrow> packetSpace \<Rightarrow> 'r lossRecovery"
  onLossDetectionTimeout :: "'r lossRecovery \<Rightarrow> Time \<Rightarrow> 'r lossRecovery"
  probeTimeout :: "'r lossRecovery \<Rightarrow> Duration"

text \<open>
  The TLS adapter holds a pointer to the connection. What it does with it is to read and
  write the CRYPTO streams of the packet number spaces and to install their keys, so its
  doHandshake works on the array of spaces.
\<close>

record ('k, 'h, 'rb, 'sb) tlsOps =
  hs_init :: "'h \<Rightarrow> bool \<Rightarrow> 'h"
  hs_doHandshake ::
    "'h \<Rightarrow> (packetSpace \<Rightarrow> ('k, 'rb, 'sb) packetNumberSpace)
     \<Rightarrow> error option \<times> 'h \<times> (packetSpace \<Rightarrow> ('k, 'rb, 'sb) packetNumberSpace)"
  HandshakeComplete :: "'h \<Rightarrow> bool"
  peerTransportParams :: "'h \<Rightarrow> Parameters option"
  hs_reset :: "'h \<Rightarrow> 'h"
  setTransportParams :: "'h \<Rightarrow> Parameters \<Rightarrow> 'h"

record ('k, 'h, 'r, 'rb, 'sb) env =
  co :: codec
  sp :: "('k, 'rb, 'sb) spaceOps"
  so :: "('rb, 'sb) streamOps"
  ro :: "'r recoveryOps"
  tls :: "('k, 'h, 'rb, 'sb) tlsOps"

definition MaxCIDLength :: nat where
  \<comment> \<open>Modelled from the spec: the constant is not among the sources; a connection ID is
      an opaque identifier of up to 20 bytes.\<close>
  "MaxCIDLength = 20"

section \<open>Small methods of the connection\<close>

definition addEvent :: "('k, 'h, 'r, 'rb, 'sb) Conn \<Rightarrow> Event \<Rightarrow> ('k, 'h, 'r, 'rb, 'sb) Conn" where
  "addEvent s e = s\<lparr>events := events s @ [e]\<rparr>"

definition setSpace ::
  "('k, 'h, 'r, 'rb, 'sb) Conn \<Rightarrow> packetSpace \<Rightarrow> ('k, 'rb, 'sb) packetNumberSpace
   \<Rightarrow> ('k, 'h, 'r, 'rb, 'sb) Conn" where
  \<comment> \<open>A write through the pointer \<open>&s.packetNumberSpaces[space]\<close>.\<close>
  "setSpace s space pn = s\<lparr>packetNumberSpaces := (packetNumberSpaces s)(space := pn)\<rparr>"

definition setStream ::
  "('k, 'h, 'r, 'rb, 'sb) Conn \<Rightarrow> uint64 \<Rightarrow> ('rb, 'sb) Stream \<Rightarrow> ('k, 'h, 'r, 'rb, 'sb) Conn" where
  \<comment> \<open>The stream map holds pointers: a write through the pointer of the stream with this
      ID is an update of the map at the ID.\<close>
  "setStream s sid st =
     s\<lparr>streams := (streams s)\<lparr>sm_streams := (sm_streams (streams s))(sid \<mapsto> st)\<rparr>\<rparr>"

definition deriveInitialKeyMaterial ::
  "('k, 'h, 'r, 'rb, 'sb) env \<Rightarrow> ('k, 'h, 'r, 'rb, 'sb) Conn \<Rightarrow> bytes
   \<Rightarrow> ('k, 'h, 'r, 'rb, 'sb) Conn" where
  "deriveInitialKeyMaterial env s cid =
     (case initialAEAD (sp env) cid of
        (client, server) \<Rightarrow>
          (let space = packetNumberSpaces s packetSpaceInitial;
               space' = (if isClient s
                         then space\<lparr>opener := Some server, sealer := Some client\<rparr>
                         else space\<lparr>opener := Some client, sealer := Some server\<rparr>)
           in (setSpace s packetSpaceInitial space')\<lparr>derivedInitialSecrets := True\<rparr>))"

definition dropPacketSpace ::
  "('k, 'h, 'r, 'rb, 'sb) env \<Rightarrow> ('k, 'h, 'r, 'rb, 'sb) Conn \<Rightarrow> packetSpace
   \<Rightarrow> ('k, 'h, 'r, 'rb, 'sb) Conn" where
  "dropPacketSpace env s space =
     (setSpace s space (space_drop (sp env) (packetNumberSpaces s space)))
       \<lparr>recovery := dropUnackedData (ro env) (recovery s) space\<rparr>"

definition setDraining ::
  "('k, 'h, 'r, 'rb, 'sb) env \<Rightarrow> ('k, 'h, 'r, 'rb, 'sb) Conn \<Rightarrow> Time
   \<Rightarrow> ('k, 'h, 'r, 'rb, 'sb) Conn" where
  "setDraining env s now =
     (if IsZero (drainingTimer s)
      then s\<lparr>drainingTimer := time_Add now (probeTimeout (ro env) (recovery s) * 3)\<rparr>
      else s)"


section \<open>Streams of the connection\<close>

definition getOrCreateStream ::
  "('k, 'h, 'r, 'rb, 'sb) env \<Rightarrow> ('k, 'h, 'r, 'rb, 'sb) Conn \<Rightarrow> uint64 \<Rightarrow> bool
   \<Rightarrow> (error + ('rb, 'sb) Stream) \<times> ('k, 'h, 'r, 'rb, 'sb) Conn" where
  "getOrCreateStream env s sid local =
     (case streams_get (streams s) sid of
        Some st \<Rightarrow> (Inr st, s)
      | None \<Rightarrow>
          if local \<noteq> isStreamLocal sid (isClient s)
          then (Inl (newError StreamStateError (Sprint ''invalid type of stream '' sid)), s)
          else
            (let bidi = isStreamBidi sid in
             case streams_create (so env) (streams s) sid local bidi of
               Inl err \<Rightarrow> (Inl err, s)
             | Inr (st, sm) \<Rightarrow>
                 (let maxRecv =
                        (if local
                         then (if bidi then InitialMaxStreamDataBidiLocal (localParams s) else 0)
                         else (if bidi then InitialMaxStreamDataBidiRemote (localParams s)
                               else InitialMaxStreamDataUni (localParams s)));
                      maxSend =
                        (if local
                         then (if bidi then InitialMaxStreamDataBidiRemote (peerParams s)
                               else InitialMaxStreamDataUni (peerParams s))
                         else (if bidi then InitialMaxStreamDataBidiLocal (peerParams s)
                               else 0));
                      st' = st\<lparr>st_flow := flow_init (so env) (st_flow st) maxRecv maxSend,
                                connFlow := True\<rparr>
                  in (Inr st', setStream (s\<lparr>streams := sm\<rparr>) sid st'))))"

definition Stream ::
  "('k, 'h, 'r, 'rb, 'sb) env \<Rightarrow> ('k, 'h, 'r, 'rb, 'sb) Conn \<Rightarrow> uint64
   \<Rightarrow> (error + ('rb, 'sb) Stream) \<times> ('k, 'h, 'r, 'rb, 'sb) Conn" where
  "Stream env s sid = getOrCreateStream env s sid True"

section \<open>The constructors\<close>

record 'h Config =
  Version :: uint32
  Params :: Parameters
  TLS :: 'h  \<comment> \<open>the TLS configuration, as the handshake keeps it\<close>

text \<open>
  newConn reads the clock once and, for a client, fills the 20 bytes of the first
  destination connection ID from the random source; \<open>now\<close> and \<open>rnd\<close> are what the
  two gave: \<open>rnd\<close> is the error of the read or the bytes.
\<close>

definition newConn ::
  "('k, 'h, 'r, 'rb, 'sb) env \<Rightarrow> Time \<Rightarrow> error + bytes \<Rightarrow> 'h Config option \<Rightarrow> bytes \<Rightarrow> bytes
   \<Rightarrow> bool \<Rightarrow> error + ('k, 'h, 'r, 'rb, 'sb) Conn" where
  "newConn env now rnd config scid' odcid' isClient' =
     (case config of
        None \<Rightarrow> Inl (newError InternalError (Text ''config required''))
      | Some cfg \<Rightarrow>
          if length scid' > MaxCIDLength \<or> length odcid' > MaxCIDLength
          then Inl (newError ProtocolViolation (Text ''cid too long''))
          else
            (let rb = recv_zero (so env); sb = send_zero (so env);
                 s0 = (zeroConn (hs_init (tls env) (TLS cfg) isClient')
                         (recovery_zero (ro env)) rb sb)
                       \<lparr>version := Version cfg, isClient := isClient',
                        localParams := Params cfg, state := stateAttempted\<rparr>;
                 s1 = s0\<lparr>packetNumberSpaces :=
                            (\<lambda>i. space_init (sp env) (packetNumberSpaces s0 i))\<rparr>;
                 s2 = s1\<lparr>streams :=
                            streams_init (so env) (streams s1)
                              (InitialMaxStreamsBidi (localParams s1))
                              (InitialMaxStreamsUni (localParams s1))\<rparr>;
                 s3 = s2\<lparr>recovery := recovery_init (ro env) (recovery s2) now\<rparr>;
                 s4 = s3\<lparr>flow := flow_init (so env) (flow s3) (InitialMaxData (localParams s3)) 0\<rparr>;
                 s5 = (if length scid' > 0 then s4\<lparr>scid := scid'\<rparr> else s4);
                 s6 = s5\<lparr>localParams := (localParams s5)\<lparr>InitialSourceCID := scid s5\<rparr>\<rparr>;
                 s7 = (if length odcid' > 0
                       then s6\<lparr>odcid := odcid',
                               localParams := (localParams s6)
                                 \<lparr>OriginalDestinationCID := odcid', RetrySourceCID := scid s6\<rparr>,
                               didRetry := True\<rparr>
                       else s6\<lparr>localParams := (localParams s6)
                                 \<lparr>OriginalDestinationCID := [], RetrySourceCID := []\<rparr>\<rparr>)
             in if isClient'
                then (case rnd of
                        Inl err \<Rightarrow> Inl err
                      | Inr r \<Rightarrow>
                          (let s8 = s7\<lparr>localParams := (localParams s7)\<lparr>StatelessResetToken := []\<rparr>,
                                       dcid := r\<rparr>;
                               s9 = deriveInitialKeyMaterial env s8 (dcid s8)
                           in Inr (s9\<lparr>handshake :=
                                        setTransportParams (tls env) (handshake s9) (localParams s9)\<rparr>)))
                else Inr (s7\<lparr>handshake :=
                               setTransportParams (tls env) (handshake s7) (localParams s7)\<rparr>)))"

definition Connect ::
  "('k, 'h, 'r, 'rb, 'sb) env \<Rightarrow> Time \<Rightarrow> error + bytes \<Rightarrow> bytes \<Rightarrow> 'h Config option
   \<Rightarrow> error + ('k, 'h, 'r, 'rb, 'sb) Conn" where
  "Connect env now rnd scid' config = newConn env now rnd config scid' [] True"

definition Accept ::
  "('k, 'h, 'r, 'rb, 'sb) env \<Rightarrow> Time \<Rightarrow> error + bytes \<Rightarrow> bytes \<Rightarrow> bytes \<Rightarrow> 'h Config option
   \<Rightarrow> error + ('k, 'h, 'r, 'rb, 'sb) Conn" where
  "Accept env now rnd scid' odcid' config = newConn env now rnd config scid' odcid' False"

section \<open>Ingest: the frame handlers\<close>

text \<open>
  A handler returns the number of bytes of the frame, or an error, and the connection as
  the handler left it: what a handler has written before it fails stays written.
\<close>

definition recvFramePadding ::
  "('k, 'h, 'r, 'rb, 'sb) env \<Rightarrow> ('k, 'h, 'r, 'rb, 'sb) Conn \<Rightarrow> bytes \<Rightarrow> Time
   \<Rightarrow> (error + nat) \<times> ('k, 'h, 'r, 'rb, 'sb) Conn" where
  "recvFramePadding env s b now =
     (case decodePadding (co env) b of Inl err \<Rightarrow> (Inl err, s) | Inr n \<Rightarrow> (Inr n, s))"

definition recvFramePing ::
  "('k, 'h, 'r, 'rb, 'sb) Conn \<Rightarrow> Time \<Rightarrow> ('k, 'h, 'r, 'rb, 'sb) Conn" where
  "recvFramePing s now = s"

definition ackDelayDuration :: "uint64 \<Rightarrow> uint64 \<Rightarrow> Duration" where
  \<comment> \<open>\<open>time.Duration((1<<exponent)*ackDelay) * time.Microsecond\<close>, in 64 bits.\<close>
  "ackDelayDuration exponent d = sint ((push_bit (unat exponent) 1 * d) * 1000 :: uint64)"

definition firstPacketAckedNow ::
  "('k, 'h, 'r, 'rb, 'sb) env \<Rightarrow> ('k, 'h, 'r, 'rb, 'sb) Conn \<Rightarrow> packetSpace
   \<Rightarrow> ('k, 'h, 'r, 'rb, 'sb) Conn" where
  \<comment> \<open>The block of recvFrameAck under \<open>if !firstPacketAcked\<close>.\<close>
  "firstPacketAckedNow env s space =
     (let s1 = setSpace s space ((packetNumberSpaces s space)\<lparr>firstPacketAcked := True\<rparr>)
      in if space = packetSpaceApplication \<and> state s = stateActive
         then (dropPacketSpace env s1 packetSpaceHandshake)
                \<lparr>handshakeConfirmed := (if isClient s \<and> \<not> handshakeConfirmed s then True
                                         else handshakeConfirmed s)\<rparr>
         else s1)"

definition recvFrameAck ::
  "('k, 'h, 'r, 'rb, 'sb) env \<Rightarrow> ('k, 'h, 'r, 'rb, 'sb) Conn \<Rightarrow> bytes \<Rightarrow> packetSpace \<Rightarrow> Time
   \<Rightarrow> (error + nat) \<times> ('k, 'h, 'r, 'rb, 'sb) Conn" where
  "recvFrameAck env s b space now =
     (case decodeAck (co env) b of
        Inl err \<Rightarrow> (Inl err, s)
      | Inr (f, n) \<Rightarrow>
          (case toRangeSet (co env) f of
             None \<Rightarrow> (Inl (newError FrameEncodingError (SprintAck ''invalid ack ranges '' f)), s)
           | Some ranges \<Rightarrow>
               (let s1 = s\<lparr>recovery :=
                            onAckReceived (ro env) (recovery s) ranges
                              (ackDelayDuration (AckDelayExponent (peerParams s)) (ackDelay f))
                              space now\<rparr>
                in (Inr n,
                    if \<not> firstPacketAcked (packetNumberSpaces s1 space)
                    then firstPacketAckedNow env s1 space else s1))))"

definition recvFrameResetStream ::
  "('k, 'h, 'r, 'rb, 'sb) env \<Rightarrow> ('k, 'h, 'r, 'rb, 'sb) Conn \<Rightarrow> bytes \<Rightarrow> Time
   \<Rightarrow> (error + nat) \<times> ('k, 'h, 'r, 'rb, 'sb) Conn" where
  "recvFrameResetStream env s b now =
     (case decodeResetStream (co env) b of
        Inl err \<Rightarrow> (Inl err, s)
      | Inr (f, n) \<Rightarrow>
          if isStreamLocal (rs_streamID f) (isClient s) \<and> \<not> isStreamBidi (rs_streamID f)
          then (Inl (newError StreamStateError (Sprint ''reset stream '' (rs_streamID f))), s)
          else
            (case getOrCreateStream env s (rs_streamID f) False of
               (Inl err, s1) \<Rightarrow> (Inl err, s1)
             | (Inr st, s1) \<Rightarrow>
                 (case recv_reset (so env) (st_recv st) (rs_finalSize f) of
                    (Inl err, rb) \<Rightarrow> (Inl err, setStream s1 (rs_streamID f) (st\<lparr>st_recv := rb\<rparr>))
                  | (Inr mayRecv, rb) \<Rightarrow>
                      if canRecv (flow s1) < word_of_int mayRecv
                      then (Inl errFlowControl, setStream s1 (rs_streamID f) (st\<lparr>st_recv := rb\<rparr>))
                      else (Inr n,
                            addEvent
                              ((setStream s1 (rs_streamID f) (st\<lparr>st_recv := rb\<rparr>))
                                 \<lparr>flow := addRecv (flow s1) mayRecv\<rparr>)
                              (StreamResetEvent (rs_streamID f) (rs_errorCode f))))))"

definition recvFrameStopSending ::
  "('k, 'h, 'r, 'rb, 'sb) env \<Rightarrow> ('k, 'h, 'r, 'rb, 'sb) Conn \<Rightarrow> bytes \<Rightarrow> Time
   \<Rightarrow> (error + nat) \<times> ('k, 'h, 'r, 'rb, 'sb) Conn" where
  "recvFrameStopSending env s b now =
     (case decodeStopSending (co env) b of
        Inl err \<Rightarrow> (Inl err, s)
      | Inr (f, n) \<Rightarrow>
          if isStreamLocal (ss_streamID f) (isClient s)
             \<and> streams_get (streams s) (ss_streamID f) = None
          then (Inl (newError StreamStateError
                       (Sprint ''stop sending stream '' (ss_streamID f))), s)
          else if \<not> isStreamBidi (ss_streamID f)
          then (Inl (newError StreamStateError
                       (Sprint ''stop sending stream '' (ss_streamID f))), s)
          else (Inr n, addEvent s (StreamStopEvent (ss_streamID f) (ss_errorCode f))))"

definition validatePeerTransportParams ::
  "('k, 'h, 'r, 'rb, 'sb) Conn \<Rightarrow> Parameters option \<Rightarrow> error option" where
  "validatePeerTransportParams s params =
     (case params of
        None \<Rightarrow> Some (newError TransportParameterError (Text ''''))
      | Some p \<Rightarrow>
          if length (InitialSourceCID p) = 0 \<or> InitialSourceCID p \<noteq> dcid s
          then Some (newError TransportParameterError (Text ''initial source cid''))
          else if isClient s \<and> OriginalDestinationCID p \<noteq> odcid s
          then Some (newError TransportParameterError (Text ''original destination cid''))
          else if \<not> isClient s \<and> length (OriginalDestinationCID p) > 0
          then Some (newError TransportParameterError (Text ''original destination cid''))
          else if \<not> isClient s \<and> length (StatelessResetToken p) > 0
          then Some (newError TransportParameterError (Text ''reset token''))
          else if length (rscid s) > 0 \<and> RetrySourceCID p \<noteq> rscid s
          then Some (newError TransportParameterError (Text ''retry source cid''))
          else None)"

definition handshakeCompleted ::
  "('k, 'h, 'r, 'rb, 'sb) env \<Rightarrow> ('k, 'h, 'r, 'rb, 'sb) Conn \<Rightarrow> Parameters
   \<Rightarrow> ('k, 'h, 'r, 'rb, 'sb) Conn" where
  \<comment> \<open>The assignments of doHandshake once the peer's parameters are validated.\<close>
  "handshakeCompleted env s params =
     s\<lparr>flow := setMaxSend (so env) (flow s) (InitialMaxData params),
       streams := setPeerMaxStreamsUni (so env)
                    (setPeerMaxStreamsBidi (so env) (streams s) (InitialMaxStreamsBidi params))
                    (InitialMaxStreamsUni params),
       recovery := (recovery s)\<lparr>maxAckDelay := MaxAckDelay params\<rparr>,
       peerParams := params,
       state := stateActive\<rparr>"

definition doHandshake ::
  "('k, 'h, 'r, 'rb, 'sb) env \<Rightarrow> ('k, 'h, 'r, 'rb, 'sb) Conn
   \<Rightarrow> error option \<times> ('k, 'h, 'r, 'rb, 'sb) Conn" where
  "doHandshake env s =
     (if stateOrd (state s) \<ge> stateOrd stateActive then (None, s)
      else
        (case hs_doHandshake (tls env) (handshake s) (packetNumberSpaces s) of
           (Some err, h, ps) \<Rightarrow> (Some err, s\<lparr>handshake := h, packetNumberSpaces := ps\<rparr>)
         | (None, h, ps) \<Rightarrow>
             if HandshakeComplete (tls env) h
             then
               (case validatePeerTransportParams
                       (s\<lparr>handshake := h, packetNumberSpaces := ps\<rparr>)
                       (peerTransportParams (tls env) h) of
                  Some err \<Rightarrow> (Some err, s\<lparr>handshake := h, packetNumberSpaces := ps\<rparr>)
                | None \<Rightarrow>
                    (case peerTransportParams (tls env) h of
                       None \<Rightarrow> (Some (runtimePanic (Text ''nil pointer dereference'')),
                                 s\<lparr>handshake := h, packetNumberSpaces := ps\<rparr>)
                     | Some params \<Rightarrow>
                         (None, handshakeCompleted env
                                  (s\<lparr>handshake := h, packetNumberSpaces := ps\<rparr>) params)))
             else (None, s\<lparr>handshake := h, packetNumberSpaces := ps\<rparr>)))"

definition recvFrameCrypto ::
  "('k, 'h, 'r, 'rb, 'sb) env \<Rightarrow> ('k, 'h, 'r, 'rb, 'sb) Conn \<Rightarrow> bytes \<Rightarrow> packetSpace \<Rightarrow> Time
   \<Rightarrow> (error + nat) \<times> ('k, 'h, 'r, 'rb, 'sb) Conn" where
  "recvFrameCrypto env s b space now =
     (case decodeCrypto (co env) b of
        Inl err \<Rightarrow> (Inl err, s)
      | Inr (f, n) \<Rightarrow>
          (case pushRecv (so env) (cryptoStream (packetNumberSpaces s space))
                  (cf_data f) (cf_offset f) False of
             (Some err, cs) \<Rightarrow>
               (Inl err, setSpace s space ((packetNumberSpaces s space)\<lparr>cryptoStream := cs\<rparr>))
           | (None, cs) \<Rightarrow>
               (case doHandshake env
                       (setSpace s space ((packetNumberSpaces s space)\<lparr>cryptoStream := cs\<rparr>)) of
                  (Some err, s1) \<Rightarrow> (Inl err, s1)
                | (None, s1) \<Rightarrow> (Inr n, s1))))"

definition recvFrameNewToken ::
  "('k, 'h, 'r, 'rb, 'sb) env \<Rightarrow> ('k, 'h, 'r, 'rb, 'sb) Conn \<Rightarrow> bytes \<Rightarrow> Time
   \<Rightarrow> (error + nat) \<times> ('k, 'h, 'r, 'rb, 'sb) Conn" where
  "recvFrameNewToken env s b now =
     (case decodeNewToken (co env) b of Inl err \<Rightarrow> (Inl err, s) | Inr n \<Rightarrow> (Inr n, s))"

definition recvFrameStream ::
  "('k, 'h, 'r, 'rb, 'sb) env \<Rightarrow> ('k, 'h, 'r, 'rb, 'sb) Conn \<Rightarrow> bytes \<Rightarrow> Time
   \<Rightarrow> (error + nat) \<times> ('k, 'h, 'r, 'rb, 'sb) Conn" where
  "recvFrameStream env s b now =
     (case decodeStream (co env) b of
        Inl err \<Rightarrow> (Inl err, s)
      | Inr (f, n) \<Rightarrow>
          if isStreamLocal (sf_streamID f) (isClient s) \<and> \<not> isStreamBidi (sf_streamID f)
          then (Inl (newError StreamStateError (Text ''writing not permitted'')), s)
          else if canRecv (flow s) < of_nat (length (sf_data f))
          then (Inl errFlowControl, s)
          else
            (case getOrCreateStream env s (sf_streamID f) False of
               (Inl err, s1) \<Rightarrow> (Inl err, s1)
             | (Inr st, s1) \<Rightarrow>
                 (case pushRecv (so env) st (sf_data f) (sf_offset f) (sf_fin f) of
                    (Some err, st') \<Rightarrow> (Inl err, setStream s1 (sf_streamID f) st')
                  | (None, st') \<Rightarrow>
                      (Inr n,
                       addEvent
                         ((setStream s1 (sf_streamID f) st')
                            \<lparr>flow := addRecv (flow s1) (int (length (sf_data f)))\<rparr>)
                         (StreamRecvEvent (sf_streamID f))))))"

definition recvFrameMaxData ::
  "('k, 'h, 'r, 'rb, 'sb) env \<Rightarrow> ('k, 'h, 'r, 'rb, 'sb) Conn \<Rightarrow> bytes \<Rightarrow> Time
   \<Rightarrow> (error + nat) \<times> ('k, 'h, 'r, 'rb, 'sb) Conn" where
  "recvFrameMaxData env s b now =
     (case decodeMaxData (co env) b of
        Inl err \<Rightarrow> (Inl err, s)
      | Inr (f, n) \<Rightarrow> (Inr n, s\<lparr>flow := setMaxSend (so env) (flow s) (md_maximumData f)\<rparr>))"

definition recvFrameMaxStreamData ::
  "('k, 'h, 'r, 'rb, 'sb) env \<Rightarrow> ('k, 'h, 'r, 'rb, 'sb) Conn \<Rightarrow> bytes \<Rightarrow> Time
   \<Rightarrow> (error + nat) \<times> ('k, 'h, 'r, 'rb, 'sb) Conn" where
  "recvFrameMaxStreamData env s b now =
     (case decodeMaxStreamData (co env) b of
        Inl err \<Rightarrow> (Inl err, s)
      | Inr (f, n) \<Rightarrow>
          (case getOrCreateStream env s (msd_streamID f) False of
             (Inl err, s1) \<Rightarrow> (Inl err, s1)
           | (Inr st, s1) \<Rightarrow>
               (Inr n,
                setStream s1 (msd_streamID f)
                  (st\<lparr>st_flow := setMaxSend (so env) (st_flow st) (msd_maximumData f)\<rparr>))))"

definition recvFrameMaxStreams ::
  "('k, 'h, 'r, 'rb, 'sb) env \<Rightarrow> ('k, 'h, 'r, 'rb, 'sb) Conn \<Rightarrow> bytes \<Rightarrow> Time
   \<Rightarrow> (error + nat) \<times> ('k, 'h, 'r, 'rb, 'sb) Conn" where
  "recvFrameMaxStreams env s b now =
     (case decodeMaxStreams (co env) b of
        Inl err \<Rightarrow> (Inl err, s)
      | Inr (f, n) \<Rightarrow>
          (Inr n,
           if ms_bidi f
           then s\<lparr>streams := setPeerMaxStreamsBidi (so env) (streams s) (ms_maximumStreams f)\<rparr>
           else s\<lparr>streams := setPeerMaxStreamsUni (so env) (streams s) (ms_maximumStreams f)\<rparr>))"

definition recvFrameDataBlocked ::
  "('k, 'h, 'r, 'rb, 'sb) env \<Rightarrow> ('k, 'h, 'r, 'rb, 'sb) Conn \<Rightarrow> bytes \<Rightarrow> Time
   \<Rightarrow> (error + nat) \<times> ('k, 'h, 'r, 'rb, 'sb) Conn" where
  "recvFrameDataBlocked env s b now =
     (case decodeDataBlocked (co env) b of Inl err \<Rightarrow> (Inl err, s) | Inr n \<Rightarrow> (Inr n, s))"

definition recvFrameStreamDataBlocked ::
  "('k, 'h, 'r, 'rb, 'sb) env \<Rightarrow> ('k, 'h, 'r, 'rb, 'sb) Conn \<Rightarrow> bytes \<Rightarrow> Time
   \<Rightarrow> (error + nat) \<times> ('k, 'h, 'r, 'rb, 'sb) Conn" where
  "recvFrameStreamDataBlocked env s b now =
     (case decodeStreamDataBlocked (co env) b of
        Inl err \<Rightarrow> (Inl err, s) | Inr n \<Rightarrow> (Inr n, s))"

definition recvFrameStreamsBlocked ::
  "('k, 'h, 'r, 'rb, 'sb) env \<Rightarrow> ('k, 'h, 'r, 'rb, 'sb) Conn \<Rightarrow> bytes \<Rightarrow> Time
   \<Rightarrow> (error + nat) \<times> ('k, 'h, 'r, 'rb, 'sb) Conn" where
  "recvFrameStreamsBlocked env s b now =
     (case decodeStreamsBlocked (co env) b of Inl err \<Rightarrow> (Inl err, s) | Inr n \<Rightarrow> (Inr n, s))"

definition recvFrameConnectionClose ::
  "('k, 'h, 'r, 'rb, 'sb) env \<Rightarrow> ('k, 'h, 'r, 'rb, 'sb) Conn \<Rightarrow> bytes \<Rightarrow> packetSpace \<Rightarrow> Time
   \<Rightarrow> (error + nat) \<times> ('k, 'h, 'r, 'rb, 'sb) Conn" where
  "recvFrameConnectionClose env s b space now =
     (case decodeConnectionClose (co env) b of
        Inl err \<Rightarrow> (Inl err, s)
      | Inr (f, n) \<Rightarrow> (Inr n, setDraining env (s\<lparr>state := stateDraining\<rparr>) now))"

definition recvFrameHandshakeDone ::
  "('k, 'h, 'r, 'rb, 'sb) env \<Rightarrow> ('k, 'h, 'r, 'rb, 'sb) Conn \<Rightarrow> bytes \<Rightarrow> Time
   \<Rightarrow> (error + nat) \<times> ('k, 'h, 'r, 'rb, 'sb) Conn" where
  "recvFrameHandshakeDone env s b now =
     (case decodeHandshakeDone (co env) b of
        Inl err \<Rightarrow> (Inl err, s)
      | Inr n \<Rightarrow>
          if \<not> isClient s
          then (Inl (newError ProtocolViolation (Text ''unexpected handshake done frame'')), s)
          else (Inr n,
                if state s = stateActive \<and> \<not> handshakeConfirmed s
                then (dropPacketSpace env s packetSpaceHandshake)\<lparr>handshakeConfirmed := True\<rparr>
                else s))"

section \<open>Ingest: the frames of a packet\<close>

definition recvFrame ::
  "('k, 'h, 'r, 'rb, 'sb) env \<Rightarrow> ('k, 'h, 'r, 'rb, 'sb) Conn \<Rightarrow> uint64 \<Rightarrow> nat \<Rightarrow> bytes
   \<Rightarrow> packetSpace \<Rightarrow> Time \<Rightarrow> (error + nat) \<times> ('k, 'h, 'r, 'rb, 'sb) Conn" where
  \<comment> \<open>The switch of recvFrames on the frame type; \<open>n\<close> is the length of the type, which
      stands for the frame where the handler returns none (PING).\<close>
  "recvFrame env s ftyp n b space now =
     (if ftyp = frameTypePadding then recvFramePadding env s b now
      else if ftyp = frameTypePing then (Inr n, recvFramePing s now)
      else if ftyp = frameTypeAck then recvFrameAck env s b space now
      else if ftyp = frameTypeResetStream then recvFrameResetStream env s b now
      else if ftyp = frameTypeStopSending then recvFrameStopSending env s b now
      else if ftyp = frameTypeCrypto then recvFrameCrypto env s b space now
      else if ftyp = frameTypeNewToken then recvFrameNewToken env s b now
      else if ftyp \<ge> frameTypeStream \<and> ftyp \<le> frameTypeStreamEnd
        then recvFrameStream env s b now
      else if ftyp = frameTypeMaxData then recvFrameMaxData env s b now
      else if ftyp = frameTypeMaxStreamData then recvFrameMaxStreamData env s b now
      else if ftyp = frameTypeMaxStreamsBidi \<or> ftyp = frameTypeMaxStreamsUni
        then recvFrameMaxStreams env s b now
      else if ftyp = frameTypeDataBlocked then recvFrameDataBlocked env s b now
      else if ftyp = frameTypeStreamDataBlocked then recvFrameStreamDataBlocked env s b now
      else if ftyp = frameTypeStreamsBlockedBidi \<or> ftyp = frameTypeStreamsBlockedUni
        then recvFrameStreamsBlocked env s b now
      else if ftyp = frameTypeConnectionClose \<or> ftyp = frameTypeApplicationClose
        then recvFrameConnectionClose env s b space now
      else if ftyp = frameTypeHanshakeDone then recvFrameHandshakeDone env s b now
      else (Inl (newError FrameEncodingError (Sprint ''unsupported frame '' ftyp)), s))"

definition setAckElicited ::
  "('k, 'h, 'r, 'rb, 'sb) Conn \<Rightarrow> packetSpace \<Rightarrow> bool \<Rightarrow> ('k, 'h, 'r, 'rb, 'sb) Conn" where
  \<comment> \<open>The end of recvFrames: \<open>if ackElicited { s.packetNumberSpaces[space].ackElicited = true }\<close>.\<close>
  "setAckElicited s space elicited =
     (if elicited
      then setSpace s space ((packetNumberSpaces s space)\<lparr>ackElicited := True\<rparr>)
      else s)"

text \<open>
  The loop of recvFrames runs while bytes are left. A decoder that consumed nothing and
  reported no error would keep it running for ever: the loop takes fuel, one unit for each
  frame, and the result is None when the fuel runs out before the loop ends. Slicing
  beyond the end of the payload panics.
\<close>

fun recvFrames_loop ::
  "nat \<Rightarrow> ('k, 'h, 'r, 'rb, 'sb) env \<Rightarrow> ('k, 'h, 'r, 'rb, 'sb) Conn \<Rightarrow> bytes \<Rightarrow> packetSpace
   \<Rightarrow> Time \<Rightarrow> bool \<Rightarrow> (error option \<times> ('k, 'h, 'r, 'rb, 'sb) Conn) option" where
  "recvFrames_loop fuel env s [] space now elicited =
     Some (None, setAckElicited s space elicited)"
| "recvFrames_loop 0 env s (x # b) space now elicited = None"
| "recvFrames_loop (Suc fuel) env s (x # b) space now elicited =
     (case getVarint (co env) (x # b) of
        (n0, ftyp) \<Rightarrow>
          if n0 = 0 then Some (Some (newError FrameEncodingError (Text '''')), s)
          else
            (case recvFrame env s ftyp n0 (x # b) space now of
               (Inl err, s1) \<Rightarrow> Some (Some err, s1)
             | (Inr n, s1) \<Rightarrow>
                 if length (x # b) < n
                 then Some (Some (runtimePanic (Text ''slice bounds out of range'')), s1)
                 else recvFrames_loop fuel env s1 (drop n (x # b)) space now
                        (if \<not> elicited then isFrameAckEliciting ftyp else elicited)))"

definition recvFrames ::
  "nat \<Rightarrow> ('k, 'h, 'r, 'rb, 'sb) env \<Rightarrow> ('k, 'h, 'r, 'rb, 'sb) Conn \<Rightarrow> bytes \<Rightarrow> packetSpace
   \<Rightarrow> Time \<Rightarrow> (error option \<times> ('k, 'h, 'r, 'rb, 'sb) Conn) option" where
  "recvFrames fuel env s b space now = recvFrames_loop fuel env s b space now False"

section \<open>Ingest: packets\<close>

text \<open>
  The recovery module hands the frames of the acknowledged (or lost) packets of a space to
  a callback of the connection, one at a time. The callback never touches the recovery
  state, so draining is the list of frames with the recovery state left behind, and the
  callback is folded over the list.
\<close>

definition ackedFrame ::
  "('k, 'h, 'r, 'rb, 'sb) env \<Rightarrow> packetSpace \<Rightarrow> frame \<Rightarrow> ('k, 'h, 'r, 'rb, 'sb) Conn
   \<Rightarrow> ('k, 'h, 'r, 'rb, 'sb) Conn" where
  "ackedFrame env space f s =
     (case f of
        F_ack a \<Rightarrow>
          setSpace s space
            ((packetNumberSpaces s space)
               \<lparr>recvPacketNeedAck :=
                  removeUntil (sp env) (recvPacketNeedAck (packetNumberSpaces s space))
                    (largestAck a)\<rparr>)
      | F_crypto c \<Rightarrow>
          setSpace s space
            ((packetNumberSpaces s space)
               \<lparr>cryptoStream :=
                  (cryptoStream (packetNumberSpaces s space))
                    \<lparr>st_send := send_ack (so env)
                               (st_send (cryptoStream (packetNumberSpaces s space)))
                               (cf_offset c) (of_nat (length (cf_data c)))\<rparr>\<rparr>)
      | F_stream sf \<Rightarrow>
          (case streams_get (streams s) (sf_streamID sf) of
             None \<Rightarrow> s
           | Some st \<Rightarrow>
               (if send_complete (so env)
                     (send_ack (so env) (st_send st) (sf_offset sf) (of_nat (length (sf_data sf))))
                then addEvent
                       (setStream s (sf_streamID sf)
                          (st\<lparr>st_send := send_ack (so env) (st_send st) (sf_offset sf)
                                          (of_nat (length (sf_data sf)))\<rparr>))
                       (StreamCompleteEvent (sf_streamID sf))
                else setStream s (sf_streamID sf)
                       (st\<lparr>st_send := send_ack (so env) (st_send st) (sf_offset sf)
                                       (of_nat (length (sf_data sf)))\<rparr>)))
      | F_maxData m \<Rightarrow> s\<lparr>updateMaxData := False\<rparr>
      | F_maxStreamData m \<Rightarrow>
          (case streams_get (streams s) (msd_streamID m) of
             None \<Rightarrow> s
           | Some st \<Rightarrow> setStream s (msd_streamID m) (ackMaxData (so env) st))
      | _ \<Rightarrow> s)"

definition processAckedPackets ::
  "('k, 'h, 'r, 'rb, 'sb) env \<Rightarrow> ('k, 'h, 'r, 'rb, 'sb) Conn \<Rightarrow> packetSpace
   \<Rightarrow> ('k, 'h, 'r, 'rb, 'sb) Conn" where
  "processAckedPackets env s space =
     (case drainAcked (ro env) (recovery s) space of
        (frames, r) \<Rightarrow> fold (ackedFrame env space) frames (s\<lparr>recovery := r\<rparr>))"

definition armIdleTimer ::
  "('k, 'h, 'r, 'rb, 'sb) Conn \<Rightarrow> Time \<Rightarrow> ('k, 'h, 'r, 'rb, 'sb) Conn" where
  \<comment> \<open>\<open>if s.localParams.MaxIdleTimeout > 0 { s.idleTimer = now.Add(...) }\<close> of recvPacket.\<close>
  "armIdleTimer s now =
     (if MaxIdleTimeout (localParams s) > 0
      then s\<lparr>idleTimer := time_Add now (MaxIdleTimeout (localParams s))\<rparr>
      else s)"

definition addressValidated ::
  "('k, 'h, 'r, 'rb, 'sb) env \<Rightarrow> ('k, 'h, 'r, 'rb, 'sb) Conn \<Rightarrow> packetSpace
   \<Rightarrow> ('k, 'h, 'r, 'rb, 'sb) Conn" where
  \<comment> \<open>The statement of recvPacket that drops the Initial state on a server.\<close>
  "addressValidated env s space =
     (if \<not> isClient s \<and> space = packetSpaceHandshake \<and> state s = stateAttempted
      then dropPacketSpace env (s\<lparr>state := stateHandshake\<rparr>) packetSpaceInitial
      else s)"

definition packetProcessed ::
  "('k, 'h, 'r, 'rb, 'sb) env \<Rightarrow> ('k, 'h, 'r, 'rb, 'sb) Conn \<Rightarrow> uint64 \<Rightarrow> packetSpace \<Rightarrow> Time
   \<Rightarrow> ('k, 'h, 'r, 'rb, 'sb) Conn" where
  \<comment> \<open>What recvPacket does once recvFrames has returned without an error.\<close>
  "packetProcessed env s pn space now =
     (let s1 = processAckedPackets env s space;
          s2 = setSpace s1 space
                 (onPacketReceived (sp env) (packetNumberSpaces s1 space) pn now)
      in (addressValidated env (armIdleTimer s2 now) space)\<lparr>ackElicitingSent := False\<rparr>)"

definition recvPacket ::
  "nat \<Rightarrow> ('k, 'h, 'r, 'rb, 'sb) env \<Rightarrow> ('k, 'h, 'r, 'rb, 'sb) Conn \<Rightarrow> bytes \<Rightarrow> packet
   \<Rightarrow> packetSpace \<Rightarrow> Time \<Rightarrow> ((error + nat) \<times> ('k, 'h, 'r, 'rb, 'sb) Conn) option" where
  "recvPacket fuel env s b p space now =
     (if \<not> canDecrypt (packetNumberSpaces s space) then Some (Inr (length b), s)
      else
        (case decryptPacket (sp env) (packetNumberSpaces s space) b p of
           Inl err \<Rightarrow> Some (Inl err, s)
         | Inr (payload, len, p') \<Rightarrow>
             if isPacketReceived (sp env) (packetNumberSpaces s space) (packetNumber p')
             then Some (Inr len, s)
             else
               (case recvFrames fuel env s payload space now of
                  None \<Rightarrow> None
                | Some (Some err, s1) \<Rightarrow> Some (Inl err, s1)
                | Some (None, s1) \<Rightarrow>
                    Some (Inr len, packetProcessed env s1 (packetNumber p') space now))))"

fun firstSupported :: "(uint32 \<Rightarrow> bool) \<Rightarrow> uint32 list \<Rightarrow> uint32" where
  \<comment> \<open>The loop of recvPacketVersionNegotiation over the versions of the packet.\<close>
  "firstSupported supported [] = 0"
| "firstSupported supported (v # vs) = (if supported v then v else firstSupported supported vs)"

definition resetInitial ::
  "('k, 'h, 'r, 'rb, 'sb) env \<Rightarrow> ('k, 'h, 'r, 'rb, 'sb) Conn \<Rightarrow> ('k, 'h, 'r, 'rb, 'sb) Conn" where
  \<comment> \<open>The statements under "Reset connection state to send another initial packet",
      the same in recvPacketVersionNegotiation and recvPacketRetry.\<close>
  "resetInitial env s =
     s\<lparr>gotPeerCID := False,
       recovery := dropUnackedData (ro env) (recovery s) packetSpaceInitial,
       packetNumberSpaces :=
         (packetNumberSpaces s)
           (packetSpaceInitial :=
              space_reset (sp env) (packetNumberSpaces s packetSpaceInitial)),
       handshake :=
         setTransportParams (tls env) (hs_reset (tls env) (handshake s)) (localParams s)\<rparr>"

definition recvPacketVersionNegotiation ::
  "('k, 'h, 'r, 'rb, 'sb) env \<Rightarrow> ('k, 'h, 'r, 'rb, 'sb) Conn \<Rightarrow> bytes \<Rightarrow> packet \<Rightarrow> Time
   \<Rightarrow> (error + nat) \<times> ('k, 'h, 'r, 'rb, 'sb) Conn" where
  "recvPacketVersionNegotiation env s b p now =
     (if \<not> isClient s \<or> didVersionNegotiation s \<or> state s \<noteq> stateAttempted
         \<or> hdr_dcid (header p) \<noteq> scid s \<or> hdr_scid (header p) \<noteq> dcid s
      then (Inr (length b), s)
      else
        (case decodeBody (co env) p b of
           Inl err \<Rightarrow> (Inl err, s)
         | Inr (n, p') \<Rightarrow>
             if firstSupported (versionSupported (co env)) (supportedVersions p') = 0
             then (Inl (newError InternalError
                          (SprintVersions ''unsupported version '' (supportedVersions p'))), s)
             else (Inr (headerLen p' + n),
                   resetInitial env
                     (s\<lparr>version :=
                          firstSupported (versionSupported (co env)) (supportedVersions p'),
                        didVersionNegotiation := True\<rparr>))))"

definition recvPacketRetry ::
  "('k, 'h, 'r, 'rb, 'sb) env \<Rightarrow> ('k, 'h, 'r, 'rb, 'sb) Conn \<Rightarrow> bytes \<Rightarrow> packet \<Rightarrow> Time
   \<Rightarrow> (error + nat) \<times> ('k, 'h, 'r, 'rb, 'sb) Conn" where
  "recvPacketRetry env s b p now =
     (if \<not> isClient s \<or> didRetry s \<or> state s \<noteq> stateAttempted
         \<or> hdr_dcid (header p) \<noteq> scid s \<or> hdr_scid (header p) = dcid s
      then (Inr (length b), s)
      else
        (case decodeBody (co env) p b of
           Inl err \<Rightarrow> (Inl err, s)
         | Inr (n, p') \<Rightarrow>
             if length (p_token p') = 0 \<or> \<not> verifyRetryIntegrity (co env) b (dcid s)
             then (Inl errInvalidToken, s)
             else (Inr (length b),
                   resetInitial env
                     (deriveInitialKeyMaterial env
                        (s\<lparr>didRetry := True, token := p_token p', odcid := dcid s,
                           dcid := hdr_scid (header p'), rscid := hdr_scid (header p')\<rparr>)
                        (hdr_scid (header p'))))))"

text \<open>
  recvPacketRetry leaves \<open>s.rscid\<close> the same slice as \<open>s.dcid\<close>, and the
  destination connection ID of a client lives in the array of 20 bytes that newConn has
  made: when recvPacketInitial appends the source connection ID of the packet into that
  array, the bytes show through \<open>s.rscid\<close>, which keeps its length. A slice that no
  Retry has set is empty and stays empty. An ID too long for the array would be appended
  into a new one.
\<close>

definition writtenThrough :: "bytes \<Rightarrow> bytes \<Rightarrow> bytes" where
  \<comment> \<open>What a slice of an array reads after \<open>new\<close> was copied to the start of the array.\<close>
  "writtenThrough new old =
     (if length new \<le> MaxCIDLength then take (length old) (new @ drop (length new) old)
      else old)"

definition learnPeerCID ::
  "('k, 'h, 'r, 'rb, 'sb) env \<Rightarrow> ('k, 'h, 'r, 'rb, 'sb) Conn \<Rightarrow> packet
   \<Rightarrow> ('k, 'h, 'r, 'rb, 'sb) Conn" where
  \<comment> \<open>The block of recvPacketInitial under \<open>if !s.gotPeerCID\<close>.\<close>
  "learnPeerCID env s p =
     (let s1 =
        (if isClient s
         then (if length (odcid s) = 0 then s\<lparr>odcid := dcid s\<rparr> else s)
         else (if \<not> didRetry s
               then s\<lparr>odcid := hdr_dcid (header p),
                      localParams :=
                        (localParams s)\<lparr>OriginalDestinationCID := hdr_dcid (header p)\<rparr>,
                      handshake :=
                        setTransportParams (tls env) (handshake s)
                          ((localParams s)\<lparr>OriginalDestinationCID := hdr_dcid (header p)\<rparr>)\<rparr>
               else s))
      in s1\<lparr>dcid := hdr_scid (header p),
            rscid := writtenThrough (hdr_scid (header p)) (rscid s),
            gotPeerCID := True\<rparr>)"

definition recvPacketInitial ::
  "nat \<Rightarrow> ('k, 'h, 'r, 'rb, 'sb) env \<Rightarrow> ('k, 'h, 'r, 'rb, 'sb) Conn \<Rightarrow> bytes \<Rightarrow> packet \<Rightarrow> Time
   \<Rightarrow> ((error + nat) \<times> ('k, 'h, 'r, 'rb, 'sb) Conn) option" where
  "recvPacketInitial fuel env s b p now =
     (if gotPeerCID s \<and> (hdr_dcid (header p) \<noteq> scid s \<or> hdr_scid (header p) \<noteq> dcid s)
      then Some (Inr (length b), s)
      else
        (let s1 = (if \<not> derivedInitialSecrets s
                   then deriveInitialKeyMaterial env s (hdr_dcid (header p)) else s);
             s2 = (if \<not> gotPeerCID s1 then learnPeerCID env s1 p else s1)
         in recvPacket fuel env s2 b p packetSpaceInitial now))"

definition recvPacketHandshake ::
  "nat \<Rightarrow> ('k, 'h, 'r, 'rb, 'sb) env \<Rightarrow> ('k, 'h, 'r, 'rb, 'sb) Conn \<Rightarrow> bytes \<Rightarrow> packet \<Rightarrow> Time
   \<Rightarrow> ((error + nat) \<times> ('k, 'h, 'r, 'rb, 'sb) Conn) option" where
  "recvPacketHandshake fuel env s b p now =
     (if hdr_dcid (header p) \<noteq> scid s \<or> hdr_scid (header p) \<noteq> dcid s
      then Some (Inr (length b), s)
      else recvPacket fuel env s b p packetSpaceHandshake now)"

definition recvPacketShort ::
  "nat \<Rightarrow> ('k, 'h, 'r, 'rb, 'sb) env \<Rightarrow> ('k, 'h, 'r, 'rb, 'sb) Conn \<Rightarrow> bytes \<Rightarrow> packet \<Rightarrow> Time
   \<Rightarrow> ((error + nat) \<times> ('k, 'h, 'r, 'rb, 'sb) Conn) option" where
  "recvPacketShort fuel env s b p now =
     (if hdr_dcid (header p) \<noteq> scid s then Some (Inr (length b), s)
      else recvPacket fuel env s b p packetSpaceApplication now)"

definition zeroPacket :: packet where
  "zeroPacket =
     \<lparr>p_typ = packetTypeInitial,
      header = \<lparr>hdr_version = 0, dcil = 0, hdr_dcid = [], hdr_scid = []\<rparr>,
      headerLen = 0, p_token = [], supportedVersions = [], packetNumber = 0, payloadLen = 0\<rparr>"

definition recv ::
  "nat \<Rightarrow> ('k, 'h, 'r, 'rb, 'sb) env \<Rightarrow> ('k, 'h, 'r, 'rb, 'sb) Conn \<Rightarrow> bytes \<Rightarrow> Time
   \<Rightarrow> ((error + nat) \<times> ('k, 'h, 'r, 'rb, 'sb) Conn) option" where
  "recv fuel env s b now =
     (case decodeHeader (co env)
             (zeroPacket\<lparr>header := (header zeroPacket)\<lparr>dcil := length (scid s) mod 256\<rparr>\<rparr>) b of
        Inl err \<Rightarrow> Some (Inl err, s)
      | Inr p \<Rightarrow>
          (case p_typ p of
             packetTypeVersionNegotiation \<Rightarrow> Some (recvPacketVersionNegotiation env s b p now)
           | packetTypeRetry \<Rightarrow> Some (recvPacketRetry env s b p now)
           | packetTypeInitial \<Rightarrow> recvPacketInitial fuel env s b p now
           | packetTypeZeroRTT \<Rightarrow>
               Some (Inl (newError InternalError (Text ''zerortt packet not supported'')), s)
           | packetTypeHandshake \<Rightarrow> recvPacketHandshake fuel env s b p now
           | packetTypeShort \<Rightarrow> recvPacketShort fuel env s b p now
           | packetTypeOther t \<Rightarrow>
               Some (Inl (runtimePanic
                            (SprintType ''unsupported packet type '' (packetTypeOther t))), s)))"

definition checkTimeout ::
  "('k, 'h, 'r, 'rb, 'sb) env \<Rightarrow> ('k, 'h, 'r, 'rb, 'sb) Conn \<Rightarrow> Time
   \<Rightarrow> ('k, 'h, 'r, 'rb, 'sb) Conn" where
  "checkTimeout env s now =
     (if \<not> IsZero (drainingTimer s) \<and> \<not> now < drainingTimer s then s\<lparr>state := stateClosed\<rparr>
      else if \<not> IsZero (idleTimer s) \<and> \<not> now < idleTimer s then s\<lparr>state := stateClosed\<rparr>
      else s\<lparr>recovery := onLossDetectionTimeout (ro env) (recovery s) now\<rparr>)"

text \<open>
  The loop of Write consumes one packet at a time. It ends when the input is consumed or
  the connection is closing, and then the timers are checked; an error of recv leaves the
  loop and Write at once, with the count of bytes consumed before. A recv that consumed
  nothing and reported no error would keep the loop running for ever: the loop takes fuel
  as the loop of recvFrames does, and hands the same fuel to each packet.
\<close>

fun Write_loop ::
  "nat \<Rightarrow> nat \<Rightarrow> ('k, 'h, 'r, 'rb, 'sb) env \<Rightarrow> ('k, 'h, 'r, 'rb, 'sb) Conn \<Rightarrow> bytes \<Rightarrow> Time
   \<Rightarrow> nat \<Rightarrow> ((nat \<times> error option) \<times> ('k, 'h, 'r, 'rb, 'sb) Conn) option" where
  "Write_loop 0 fuel env s b now n =
     (if n < length b \<and> \<not> (\<not> IsZero (drainingTimer s) \<or> closeFrame s \<noteq> None)
      then None
      else Some ((n, None), checkTimeout env s now))"
| "Write_loop (Suc k) fuel env s b now n =
     (if n < length b \<and> \<not> (\<not> IsZero (drainingTimer s) \<or> closeFrame s \<noteq> None)
      then (case recv fuel env s (drop n b) now of
              None \<Rightarrow> None
            | Some (Inl err, s1) \<Rightarrow> Some ((n, Some err), s1)
            | Some (Inr i, s1) \<Rightarrow> Write_loop k fuel env s1 b now (n + i))
      else Some ((n, None), checkTimeout env s now))"

definition Write ::
  "nat \<Rightarrow> ('k, 'h, 'r, 'rb, 'sb) env \<Rightarrow> ('k, 'h, 'r, 'rb, 'sb) Conn \<Rightarrow> bytes \<Rightarrow> Time
   \<Rightarrow> ((nat \<times> error option) \<times> ('k, 'h, 'r, 'rb, 'sb) Conn) option" where
  "Write fuel env s b now = Write_loop fuel fuel env s b now 0"

section \<open>Egress: the parts the claims are about\<close>

definition lostFrame ::
  "('k, 'h, 'r, 'rb, 'sb) env \<Rightarrow> packetSpace \<Rightarrow> frame \<Rightarrow> ('k, 'h, 'r, 'rb, 'sb) Conn
   \<Rightarrow> ('k, 'h, 'r, 'rb, 'sb) Conn" where
  \<comment> \<open>The callback of processLostPackets. The error of a push is written to the debug
      log and dropped; what the push has done to the buffer stays.\<close>
  "lostFrame env space f s =
     (case f of
        F_ack a \<Rightarrow> setSpace s space ((packetNumberSpaces s space)\<lparr>ackElicited := True\<rparr>)
      | F_crypto c \<Rightarrow>
          setSpace s space
            ((packetNumberSpaces s space)
               \<lparr>cryptoStream :=
                  (cryptoStream (packetNumberSpaces s space))
                    \<lparr>st_send := snd (send_push (so env)
                                    (st_send (cryptoStream (packetNumberSpaces s space)))
                                    (cf_data c) (cf_offset c) False)\<rparr>\<rparr>)
      | F_stream sf \<Rightarrow>
          (case streams_get (streams s) (sf_streamID sf) of
             None \<Rightarrow> s
           | Some st \<Rightarrow>
               setStream s (sf_streamID sf)
                 (st\<lparr>st_send := snd (send_push (so env) (st_send st)
                                    (sf_data sf) (sf_offset sf) (sf_fin sf))\<rparr>))
      | F_handshakeDone \<Rightarrow> s\<lparr>handshakeConfirmed := False\<rparr>
      | _ \<Rightarrow> s)"

definition processLostPackets ::
  "('k, 'h, 'r, 'rb, 'sb) env \<Rightarrow> ('k, 'h, 'r, 'rb, 'sb) Conn \<Rightarrow> packetSpace
   \<Rightarrow> ('k, 'h, 'r, 'rb, 'sb) Conn" where
  "processLostPackets env s space =
     (case drainLost (ro env) (recovery s) space of
        (frames, r) \<Rightarrow> fold (lostFrame env space) frames (s\<lparr>recovery := r\<rparr>))"



definition sendFrameHandshakeDone :: "('k, 'h, 'r, 'rb, 'sb) Conn \<Rightarrow> frame option" where
  "sendFrameHandshakeDone s =
     (if isClient s \<or> state s \<noteq> stateActive \<or> handshakeConfirmed s then None
      else Some F_handshakeDone)"

definition onPacketSent ::
  "('k, 'h, 'r, 'rb, 'sb) env \<Rightarrow> ('k, 'h, 'r, 'rb, 'sb) Conn \<Rightarrow> outgoingPacket \<Rightarrow> packetSpace
   \<Rightarrow> ('k, 'h, 'r, 'rb, 'sb) Conn" where
  "onPacketSent env s op space =
     (let s1 = (setSpace s space
                  ((packetNumberSpaces s space)
                     \<lparr>nextPacketNumber := nextPacketNumber (packetNumberSpaces s space) + 1\<rparr>))
                 \<lparr>recovery := recovery_onPacketSent (ro env) (recovery s) op space\<rparr>
      in if ackEliciting op
         then (if \<not> ackElicitingSent s \<and> MaxIdleTimeout (localParams s) > 0
               then s1\<lparr>idleTimer := time_Add (timeSent op) (MaxIdleTimeout (localParams s)),
                       ackElicitingSent := True\<rparr>
               else s1\<lparr>ackElicitingSent := True\<rparr>)
         else s1)"

section \<open>A small instance of the collaborators\<close>

text \<open>
  The concrete instances below run the connection with collaborators of the simplest kind:
  a wire format of one byte for a packet header (the byte is the type of the packet, and
  the rest of the datagram is its payload, in the clear; the rest of a Retry packet is its
  token) and one byte for a frame (its type; a STREAM frame is the type, the stream ID, the
  offset and then the data up to the end of the payload), buffers without content, a
  recovery that reports what the connection has put into its list of lost frames, and a
  TLS engine that has nothing to say. An instance overrides the fields it needs.
\<close>

definition toyPacketType :: "8 word \<Rightarrow> packetType" where
  "toyPacketType x =
     (if x = 0 then packetTypeInitial else if x = 1 then packetTypeZeroRTT
      else if x = 2 then packetTypeHandshake else if x = 3 then packetTypeRetry
      else if x = 4 then packetTypeVersionNegotiation else packetTypeShort)"

definition toyCodec :: codec where
  "toyCodec =
     \<lparr>getVarint = (\<lambda>b. case b of [] \<Rightarrow> (0, 0) | x # _ \<Rightarrow> (1, ucast x)),
      decodeHeader = (\<lambda>p b. case b of [] \<Rightarrow> Inl (newError InternalError (Text ''short buffer''))
                              | x # _ \<Rightarrow> Inr (p\<lparr>p_typ := toyPacketType x, headerLen := 1\<rparr>)),
      decodeBody = (\<lambda>p b. Inr (length b - 1, p\<lparr>p_token := tl b, headerLen := 1\<rparr>)),
      verifyRetryIntegrity = (\<lambda>b cid. True),
      versionSupported = (\<lambda>v. v = 1),
      toRangeSet = (\<lambda>f. Some (ackRanges f)),
      newAckFrame = (\<lambda>d r. ackFrame 0 d r),
      decodePadding = (\<lambda>b. Inr 1),
      decodeAck = (\<lambda>b. Inr (ackFrame 0 0 [(0, 0)], 1)),
      decodeResetStream = (\<lambda>b. Inr (resetStreamFrame 0 0 0, 1)),
      decodeStopSending = (\<lambda>b. Inr (stopSendingFrame 0 0, 1)),
      decodeCrypto = (\<lambda>b. Inr (cryptoFrame [] 0, 1)),
      decodeNewToken = (\<lambda>b. Inr 1),
      decodeStream = (\<lambda>b. case b of
                          t # sid # off # dat \<Rightarrow>
                            Inr (streamFrame (ucast sid) dat (ucast off) False, length b)
                        | _ \<Rightarrow> Inl (newError FrameEncodingError (Text ''stream frame''))),
      decodeMaxData = (\<lambda>b. Inr (maxDataFrame 0, 1)),
      decodeMaxStreamData = (\<lambda>b. Inr (maxStreamDataFrame 0 0, 1)),
      decodeMaxStreams = (\<lambda>b. Inr (maxStreamsFrame True 0, 1)),
      decodeDataBlocked = (\<lambda>b. Inr 1),
      decodeStreamDataBlocked = (\<lambda>b. Inr 1),
      decodeStreamsBlocked = (\<lambda>b. Inr 1),
      decodeConnectionClose = (\<lambda>b. Inr (connectionCloseFrame False 0 [], 1)),
      decodeHandshakeDone = (\<lambda>b. Inr 1)\<rparr>"

definition toySpaceOps :: "(unit, unit, unit) spaceOps" where
  "toySpaceOps =
     \<lparr>space_init = (\<lambda>x. x),
      space_reset = (\<lambda>x. x\<lparr>nextPacketNumber := 0, recvPacketNeedAck := [],
                            ackElicited := False, firstPacketAcked := False\<rparr>),
      space_drop = (\<lambda>x. x\<lparr>opener := None, sealer := None\<rparr>),
      decryptPacket = (\<lambda>x b p. case b of
                               [] \<Rightarrow> Inl (newError InternalError (Text ''short buffer''))
                             | h # payload \<Rightarrow> Inr (payload, length b, p)),
      isPacketReceived = (\<lambda>x n. False),
      onPacketReceived = (\<lambda>x n t. x\<lparr>largestRecvPacketTime := t\<rparr>),
      removeUntil = (\<lambda>r n. r),
      initialAEAD = (\<lambda>cid. ((), ()))\<rparr>"

definition toyStreamOps :: "(unit, unit) streamOps" where
  "toyStreamOps =
     \<lparr>recv_zero = (), send_zero = (),
      pushRecv = (\<lambda>st d off fin. (None, st)),
      recv_reset = (\<lambda>r n. (Inr 0, r)),
      send_push = (\<lambda>sb d off fin. (None, sb)),
      send_ack = (\<lambda>sb off n. sb),
      send_complete = (\<lambda>sb. False),
      ackMaxData = (\<lambda>st. st\<lparr>st_updateMaxData := False\<rparr>),
      streams_init = (\<lambda>sm b u. sm\<lparr>maxStreamsBidi := b, maxStreamsUni := u\<rparr>),
      streams_create = (\<lambda>sm sid l b. Inr (zeroStream () (), sm)),
      setPeerMaxStreamsBidi = (\<lambda>sm v. sm\<lparr>peerMaxStreamsBidi := v\<rparr>),
      setPeerMaxStreamsUni = (\<lambda>sm v. sm\<lparr>peerMaxStreamsUni := v\<rparr>),
      flow_init = (\<lambda>f r sd. f\<lparr>maxRecv := r, maxRecvNext := r, maxSend := sd\<rparr>),
      setMaxSend = (\<lambda>f v. if maxSend f < v then f\<lparr>maxSend := v\<rparr> else f)\<rparr>"

definition toyRecoveryOps :: "unit recoveryOps" where
  "toyRecoveryOps =
     \<lparr>recovery_zero = (), recovery_init = (\<lambda>r t. r),
      onAckReceived = (\<lambda>r rs d s t. r),
      dropUnackedData = (\<lambda>r s. r\<lparr>lost := (lost r)(s := [])\<rparr>),
      drainAcked = (\<lambda>r s. ([], r)),
      drainLost = (\<lambda>r s. (lost r s, r\<lparr>lost := (lost r)(s := [])\<rparr>)),
      recovery_onPacketSent = (\<lambda>r p s. r),
      onLossDetectionTimeout = (\<lambda>r t. r),
      probeTimeout = (\<lambda>r. 1000)\<rparr>"

definition toyTlsOps :: "(unit, unit, unit, unit) tlsOps" where
  "toyTlsOps =
     \<lparr>hs_init = (\<lambda>h c. h), hs_doHandshake = (\<lambda>h ps. (None, h, ps)),
      HandshakeComplete = (\<lambda>h. False), peerTransportParams = (\<lambda>h. None),
      hs_reset = (\<lambda>h. h), setTransportParams = (\<lambda>h p. h)\<rparr>"

definition toyEnv :: "(unit, unit, unit, unit, unit) env" where
  "toyEnv = \<lparr>co = toyCodec, sp = toySpaceOps, so = toyStreamOps, ro = toyRecoveryOps,
             tls = toyTlsOps\<rparr>"

section \<open>Collaborators that consume\<close>






section \<open>Packets of PADDING and ACK frames\<close>


section \<open>Concrete connections\<close>

definition keyedSpace :: "(unit, unit, unit) packetNumberSpace" where
  \<comment> \<open>A packet number space with its keys installed.\<close>
  "keyedSpace = (zeroSpace () ())\<lparr>opener := Some (), sealer := Some ()\<rparr>"

definition serverActive :: conn0 where
  \<comment> \<open>A server after the handshake, with 1-RTT keys.\<close>
  "serverActive =
     unitConn\<lparr>state := stateActive,
              packetNumberSpaces :=
                (packetNumberSpaces unitConn)(packetSpaceApplication := keyedSpace)\<rparr>"

definition serverCredit10 :: conn0 where
  \<comment> \<open>A server whose connection-level receive limit is 10 bytes, none received yet.\<close>
  "serverCredit10 = serverActive\<lparr>flow := zeroFlow\<lparr>maxRecv := 10\<rparr>\<rparr>"

definition serverAttempted :: conn0 where
  \<comment> \<open>A server that has answered the client's Initial packet: it knows the peer's
      connection ID and holds Initial and Handshake keys.\<close>
  "serverAttempted =
     unitConn\<lparr>dcid := [9], gotPeerCID := True, packetNumberSpaces := (\<lambda>space. keyedSpace)\<rparr>"

definition finishingEnv :: "(unit, unit, unit, unit, unit) env" where
  \<comment> \<open>Collaborators for a client's Handshake packet from connection ID 9, with a TLS
      engine whose handshake is complete once it is driven.\<close>
  "finishingEnv =
     toyEnv
       \<lparr>co := (co toyEnv)
          \<lparr>decodeHeader :=
             (\<lambda>p b. Inr (p\<lparr>p_typ := packetTypeHandshake,
                            header := (header p)\<lparr>hdr_scid := [9]\<rparr>\<rparr>))\<rparr>,
        tls := (tls toyEnv)
          \<lparr>HandshakeComplete := (\<lambda>h. True),
           peerTransportParams := (\<lambda>h. Some (zeroParams\<lparr>InitialSourceCID := [9]\<rparr>))\<rparr>\<rparr>"

definition clientAttempted :: conn0 where
  \<comment> \<open>A client, connection ID 1, that has sent its first Initial packet to the
      destination connection ID 2.\<close>
  "clientAttempted = unitConn\<lparr>isClient := True, scid := [1], dcid := [2]\<rparr>"

definition retryPacket :: packet where
  \<comment> \<open>The header of a Retry packet for connection ID 1 from the new connection ID 3.\<close>
  "retryPacket =
     zeroPacket\<lparr>p_typ := packetTypeRetry,
                header := \<lparr>hdr_version = 1, dcil = 1, hdr_dcid = [1], hdr_scid = [3]\<rparr>\<rparr>"

definition toyConfig :: "unit Config" where
  "toyConfig = \<lparr>Version = 1, Params = zeroParams, TLS = ()\<rparr>"

section \<open>Unfolding rules\<close>

lemmas frameType_defs =
  frameTypePadding_def frameTypePing_def frameTypeAck_def frameTypeResetStream_def
  frameTypeStopSending_def frameTypeCrypto_def frameTypeNewToken_def frameTypeStream_def
  frameTypeStreamEnd_def frameTypeMaxData_def frameTypeMaxStreamData_def
  frameTypeMaxStreamsBidi_def frameTypeMaxStreamsUni_def frameTypeDataBlocked_def
  frameTypeStreamDataBlocked_def frameTypeStreamsBlockedBidi_def
  frameTypeStreamsBlockedUni_def frameTypeConnectionClose_def
  frameTypeApplicationClose_def frameTypeHanshakeDone_def

lemmas toy_defs = toyEnv_def toyCodec_def toySpaceOps_def toyStreamOps_def toyRecoveryOps_def
  toyTlsOps_def toyPacketType_def

section \<open>What ingest leaves alone\<close>

text \<open>
  No statement on the path of Write assigns the close frame or the role of the connection.
  The lemmas follow the call graph from the small methods up to Write.
\<close>

lemma kept_setSpace [simp]:
  "closeFrame (setSpace s space pn) = closeFrame s"
  "isClient (setSpace s space pn) = isClient s"
  "state (setSpace s space pn) = state s"
  by (simp_all add: setSpace_def)

lemma kept_setStream [simp]:
  "closeFrame (setStream s sid st) = closeFrame s"
  "isClient (setStream s sid st) = isClient s"
  "state (setStream s sid st) = state s"
  by (simp_all add: setStream_def)

lemma kept_addEvent [simp]:
  "closeFrame (addEvent s e) = closeFrame s"
  "isClient (addEvent s e) = isClient s"
  "state (addEvent s e) = state s"
  by (simp_all add: addEvent_def)

lemma kept_deriveInitialKeyMaterial [simp]:
  "closeFrame (deriveInitialKeyMaterial env s cid) = closeFrame s"
  "isClient (deriveInitialKeyMaterial env s cid) = isClient s"
  "state (deriveInitialKeyMaterial env s cid) = state s"
  by (simp_all add: deriveInitialKeyMaterial_def Let_def split: prod.splits)

lemma kept_dropPacketSpace [simp]:
  "closeFrame (dropPacketSpace env s space) = closeFrame s"
  "isClient (dropPacketSpace env s space) = isClient s"
  by (simp_all add: dropPacketSpace_def)

lemma kept_setDraining [simp]:
  "closeFrame (setDraining env s now) = closeFrame s"
  "isClient (setDraining env s now) = isClient s"
  by (simp_all add: setDraining_def)

lemma kept_getOrCreateStream:
  "getOrCreateStream env s sid l = (r, s') \<Longrightarrow>
   closeFrame s' = closeFrame s \<and> isClient s' = isClient s \<and> flow s' = flow s"
  by (auto simp: getOrCreateStream_def Let_def setStream_def
      split: option.splits sum.splits if_splits)

lemma getOrCreateStream_failed:
  "getOrCreateStream env s sid l = (Inl err, s') \<Longrightarrow> s' = s"
  by (auto simp: getOrCreateStream_def Let_def split: option.splits sum.splits if_splits)

lemma kept_doHandshake:
  "doHandshake env s = (r, s') \<Longrightarrow> closeFrame s' = closeFrame s \<and> isClient s' = isClient s"
  by (auto simp: doHandshake_def handshakeCompleted_def
      split: option.splits prod.splits if_splits)

lemma kept_recvFrame:
  "recvFrame env s ftyp n b space now = (r, s') \<Longrightarrow>
   closeFrame s' = closeFrame s \<and> isClient s' = isClient s"
  unfolding recvFrame_def
  by (auto simp: recvFramePadding_def recvFramePing_def recvFrameAck_def firstPacketAckedNow_def
        recvFrameResetStream_def recvFrameStopSending_def recvFrameCrypto_def
        recvFrameNewToken_def recvFrameStream_def recvFrameMaxData_def
        recvFrameMaxStreamData_def recvFrameMaxStreams_def recvFrameDataBlocked_def
        recvFrameStreamDataBlocked_def recvFrameStreamsBlocked_def
        recvFrameConnectionClose_def recvFrameHandshakeDone_def Let_def
      split: if_splits sum.splits prod.splits option.splits
      dest: kept_getOrCreateStream kept_doHandshake)

lemma kept_recvFrames_loop:
  "recvFrames_loop fuel env s b space now el = Some (r, s') \<Longrightarrow>
   closeFrame s' = closeFrame s \<and> isClient s' = isClient s"
proof (induction fuel env s b space now el rule: recvFrames_loop.induct)
  case (1 fuel env s space now elicited)
  then show ?case by (auto simp: setAckElicited_def split: if_splits)
next
  case (2 env s x b space now elicited)
  then show ?case by simp
next
  case (3 fuel env s x b space now elicited)
  obtain n0 ftyp where gv: "getVarint (co env) (x # b) = (n0, ftyp)" by fastforce
  obtain res s1 where rf: "recvFrame env s ftyp n0 (x # b) space now = (res, s1)" by fastforce
  have c1: "closeFrame s1 = closeFrame s \<and> isClient s1 = isClient s"
    using rf by (rule kept_recvFrame)
  show ?case
  proof (cases "n0 = 0")
    case True
    with 3 gv show ?thesis by simp
  next
    case n0: False
    show ?thesis
    proof (cases res)
      case (Inl err)
      with 3 gv rf n0 c1 show ?thesis by simp
    next
      case (Inr n)
      show ?thesis
      proof (cases "length (x # b) < n")
        case True
        with 3 gv rf n0 c1 Inr show ?thesis by simp
      next
        case False
        have "recvFrames_loop fuel env s1 (drop n (x # b)) space now
                (if \<not> elicited then isFrameAckEliciting ftyp else elicited) = Some (r, s')"
          using "3.prems" gv rf n0 Inr False by simp
        then have "closeFrame s' = closeFrame s1 \<and> isClient s' = isClient s1"
          using "3.IH" [OF gv [symmetric] n0 rf [symmetric, unfolded Inr] _ False]
          by (simp add: Inr)
        with c1 show ?thesis by simp
      qed
    qed
  qed
qed

lemma fields_ackedFrame [simp]:
  "closeFrame (ackedFrame env space f s) = closeFrame s"
  "isClient (ackedFrame env space f s) = isClient s"
  "state (ackedFrame env space f s) = state s"
  "recovery (ackedFrame env space f s) = recovery s"
  "localParams (ackedFrame env space f s) = localParams s"
  by (simp_all add: ackedFrame_def setStream_def setSpace_def addEvent_def
      split: frame.splits option.splits)

lemma spaces_setSpace [simp]:
  "packetNumberSpaces (setSpace s space pn) space = pn"
  "space' \<noteq> space \<Longrightarrow>
     packetNumberSpaces (setSpace s space' pn) space = packetNumberSpaces s space"
  by (simp_all add: setSpace_def)

lemma spaces_ackedFrame_other:
  "space' \<noteq> space \<Longrightarrow>
   packetNumberSpaces (ackedFrame env space' f s) space = packetNumberSpaces s space"
  by (simp add: ackedFrame_def setStream_def addEvent_def split: frame.splits option.splits)

lemma ackElicited_ackedFrame [simp]:
  "ackElicited (packetNumberSpaces (ackedFrame env space' f s) space)
     = ackElicited (packetNumberSpaces s space)"
  by (cases "space' = space")
     (simp_all add: ackedFrame_def setStream_def addEvent_def setSpace_def
        split: frame.splits option.splits)

lemma fold_ackedFrame:
  "closeFrame (fold (ackedFrame env space) fs s) = closeFrame s
   \<and> isClient (fold (ackedFrame env space) fs s) = isClient s
   \<and> state (fold (ackedFrame env space) fs s) = state s
   \<and> recovery (fold (ackedFrame env space) fs s) = recovery s
   \<and> localParams (fold (ackedFrame env space) fs s) = localParams s
   \<and> ackElicited (packetNumberSpaces (fold (ackedFrame env space) fs s) space')
       = ackElicited (packetNumberSpaces s space')
   \<and> (space \<noteq> space' \<longrightarrow>
        packetNumberSpaces (fold (ackedFrame env space) fs s) space'
          = packetNumberSpaces s space')"
  by (induction fs arbitrary: s) (simp_all add: spaces_ackedFrame_other)

lemma fields_processAckedPackets:
  "closeFrame (processAckedPackets env s space) = closeFrame s"
  "isClient (processAckedPackets env s space) = isClient s"
  "state (processAckedPackets env s space) = state s"
  "localParams (processAckedPackets env s space) = localParams s"
  "recovery (processAckedPackets env s space) = snd (drainAcked (ro env) (recovery s) space)"
  "ackElicited (packetNumberSpaces (processAckedPackets env s space) space')
     = ackElicited (packetNumberSpaces s space')"
  "space \<noteq> space' \<Longrightarrow>
     packetNumberSpaces (processAckedPackets env s space) space' = packetNumberSpaces s space'"
  by (simp_all add: processAckedPackets_def fold_ackedFrame split: prod.splits)

lemma kept_packetProcessed [simp]:
  "closeFrame (packetProcessed env s pn space now) = closeFrame s"
  "isClient (packetProcessed env s pn space now) = isClient s"
  by (simp_all add: packetProcessed_def armIdleTimer_def addressValidated_def Let_def
      fields_processAckedPackets)


lemma kept_resetInitial [simp]:
  "closeFrame (resetInitial env s) = closeFrame s"
  "isClient (resetInitial env s) = isClient s"
  by (simp_all add: resetInitial_def)

lemma kept_learnPeerCID [simp]:
  "closeFrame (learnPeerCID env s p) = closeFrame s"
  "isClient (learnPeerCID env s p) = isClient s"
  by (simp_all add: learnPeerCID_def Let_def)


lemma kept_checkTimeout [simp]:
  "closeFrame (checkTimeout env s now) = closeFrame s"
  "isClient (checkTimeout env s now) = isClient s"
  by (simp_all add: checkTimeout_def)


section \<open>The loops return\<close>























section \<open>PADDING and ACK frames\<close>




section \<open>Running the concrete instances\<close>

lemmas conn_defs = unitConn_def zeroConn_def zeroSpace_def zeroStream_def zeroStreamMap_def
  zeroRecovery_def zeroParams_def zeroFlow_def zeroPacket_def keyedSpace_def serverActive_def
  serverCredit10_def serverAttempted_def clientAttempted_def retryPacket_def toyConfig_def
  finishingEnv_def

lemmas ingest_defs = Write_def recv_def recvPacketInitial_def recvPacketHandshake_def
  recvPacketShort_def recvPacketRetry_def recvPacket_def packetProcessed_def
  processAckedPackets_def armIdleTimer_def addressValidated_def checkTimeout_def
  recvFrames_def recvFrame_def setAckElicited_def isFrameAckEliciting_def
  recvFramePadding_def recvFramePing_def recvFrameAck_def firstPacketAckedNow_def
  recvFrameCrypto_def recvFrameStream_def recvFrameConnectionClose_def
  recvFrameHandshakeDone_def doHandshake_def validatePeerTransportParams_def
  handshakeCompleted_def getOrCreateStream_def resetInitial_def deriveInitialKeyMaterial_def
  dropPacketSpace_def setDraining_def setSpace_def setStream_def addEvent_def
  streams_get_def canDecrypt_def canRecv_def addRecv_def isStreamLocal_def isStreamBidi_def
  IsZero_def time_Add_def Let_def

section \<open>C1: the timer query\<close>

text \<open>
  C1, as stated, fails: Timeout does not look for the earliest deadline. A connection that
  is draining until instant 100 and whose idle deadline is the earlier instant 50 reports,
  at instant 0, the 100 nanoseconds to the draining deadline, where the earliest deadline is
  50 nanoseconds away. So does a connection whose loss-detection deadline is the instant
  100 and whose idle deadline is the instant 50.
\<close>

theorem C1_Timeout_not_earliest:
  "state (unitConn\<lparr>state := stateDraining, drainingTimer := 100, idleTimer := 50\<rparr>)
     \<noteq> stateClosed
   \<and> Timeout 0 (unitConn\<lparr>state := stateDraining, drainingTimer := 100, idleTimer := 50\<rparr>)
     = 100
   \<and> spec_Timeout 0 (unitConn\<lparr>state := stateDraining, drainingTimer := 100, idleTimer := 50\<rparr>)
     = 50
   \<and> Timeout 0 (unitConn\<lparr>recovery := (zeroRecovery ())\<lparr>lossDetectionTimer := 100\<rparr>,
                          idleTimer := 50\<rparr>) = 100
   \<and> spec_Timeout 0 (unitConn\<lparr>recovery := (zeroRecovery ())\<lparr>lossDetectionTimer := 100\<rparr>,
                               idleTimer := 50\<rparr>) = 50"
  by (simp add: Timeout_def spec_Timeout_def deadlines_set_def unitConn_def zeroConn_def
      zeroRecovery_def IsZero_def time_Until_def time_Sub_def minDuration_def maxDuration_def)

text \<open>
  C1, amended: for a connection that is not Closed, Timeout returns the time from now to the
  draining deadline when that one is set, whatever the other two are; with no draining
  deadline it returns the time to the earliest of the loss-detection and idle deadlines
  that are set, in every case where the loss-detection deadline is unset, the idle deadline
  is unset, or the loss-detection deadline is not the later of the two. The result is
  clamped below at zero (and is a Duration, so the difference is saturated to 64 bits). It
  is -1 when the connection is Closed or no deadline is set. The case of an idle deadline
  that is earlier than a set loss-detection deadline is not covered.
\<close>

theorem C1_Timeout_amended:
  assumes "\<not> IsZero (drainingTimer s) \<or> IsZero (lossDetectionTimer (recovery s))
           \<or> IsZero (idleTimer s) \<or> lossDetectionTimer (recovery s) \<le> idleTimer s"
  shows "Timeout now s =
     (if state s = stateClosed then - 1
      else if \<not> IsZero (drainingTimer s) then max 0 (time_Until now (drainingTimer s))
      else if IsZero (lossDetectionTimer (recovery s)) \<and> IsZero (idleTimer s) then - 1
      else if IsZero (lossDetectionTimer (recovery s))
        then max 0 (time_Until now (idleTimer s))
      else if IsZero (idleTimer s)
        then max 0 (time_Until now (lossDetectionTimer (recovery s)))
      else max 0 (time_Until now (min (lossDetectionTimer (recovery s)) (idleTimer s))))"
  using assms by (auto simp: Timeout_def Let_def max_def min_def)

theorem C1_Timeout_amended_witness:
  "Timeout 10 (unitConn\<lparr>recovery := (zeroRecovery ())\<lparr>lossDetectionTimer := 30\<rparr>,
                         idleTimer := 50\<rparr>) = 20"
  using C1_Timeout_amended [of "unitConn\<lparr>recovery := (zeroRecovery ())\<lparr>lossDetectionTimer := 30\<rparr>,
                         idleTimer := 50\<rparr>" 10]
  by (simp add: unitConn_def zeroConn_def zeroRecovery_def IsZero_def time_Until_def
      time_Sub_def minDuration_def maxDuration_def)

section \<open>C2: connection-level flow control of STREAM frames\<close>

text \<open>
  C2, as stated, fails in its second half and in what it measures. A server with a
  connection-level credit of 10 bytes receives three bytes for stream 1, a stream of its own
  that it has not opened: the data is within the credit, and the frame fails with a stream
  state error, the received counter as it was. The same server receives one byte at offset
  200 of stream 0: offset plus length is beyond the credit of 10, and the byte is accepted,
  since the check is on the length of the frame's data.
\<close>

theorem C2_credit_counterexample:
  "canRecv (flow serverCredit10) = 10
   \<and> recvFrameStream toyEnv serverCredit10 [8, 1, 0, 5, 6, 7] 0
       = (Inl (newError StreamStateError (Sprint ''invalid type of stream '' 1)),
          serverCredit10)
   \<and> fst (recvFrameStream toyEnv serverCredit10 [8, 0, 200, 5] 0) = Inr 4
   \<and> totalRecv (flow (snd (recvFrameStream toyEnv serverCredit10 [8, 0, 200, 5] 0))) = 1"
  by (simp add: conn_defs ingest_defs toy_defs)

text \<open>
  C2, amended: for every received STREAM frame on a stream the peer may send on, if the
  length of the frame's data exceeds the remaining receive credit canRecv() of the
  connection, then processing the frame fails with the flow-control error and the
  connection is not modified, the receive buffer of every stream included. Otherwise the
  stream is looked up or created and the data is pushed to it: if both succeed, the frame
  is processed, the stream holds what the push made of it and the connection-level
  received counter is increased by the length of the data; if the stream cannot be
  created, the frame fails with that error and the connection is not modified; if the push
  fails, the frame fails with that error and the connection-level counters are as before.
\<close>

theorem C2_recvFrameStream_flow_control:
  assumes "decodeStream (co env) b = Inr (f, n)"
    and "\<not> (isStreamLocal (sf_streamID f) (isClient s) \<and> \<not> isStreamBidi (sf_streamID f))"
  shows "(canRecv (flow s) < of_nat (length (sf_data f)) \<longrightarrow>
            recvFrameStream env s b now = (Inl errFlowControl, s))
       \<and> (\<not> canRecv (flow s) < of_nat (length (sf_data f)) \<longrightarrow>
            (\<forall>st s1 st'.
               getOrCreateStream env s (sf_streamID f) False = (Inr st, s1)
               \<and> pushRecv (so env) st (sf_data f) (sf_offset f) (sf_fin f) = (None, st')
               \<longrightarrow> fst (recvFrameStream env s b now) = Inr n
                 \<and> totalRecv (flow (snd (recvFrameStream env s b now)))
                     = totalRecv (flow s) + of_nat (length (sf_data f))
                 \<and> streams_get (streams (snd (recvFrameStream env s b now))) (sf_streamID f)
                     = Some st')
          \<and> (\<forall>err s1. getOrCreateStream env s (sf_streamID f) False = (Inl err, s1)
               \<longrightarrow> recvFrameStream env s b now = (Inl err, s))
          \<and> (\<forall>st s1 err st'.
               getOrCreateStream env s (sf_streamID f) False = (Inr st, s1)
               \<and> pushRecv (so env) st (sf_data f) (sf_offset f) (sf_fin f) = (Some err, st')
               \<longrightarrow> fst (recvFrameStream env s b now) = Inl err
                 \<and> flow (snd (recvFrameStream env s b now)) = flow s))"
  using assms
  by (auto simp: recvFrameStream_def addEvent_def setStream_def addRecv_def streams_get_def
      dest: getOrCreateStream_failed kept_getOrCreateStream)

theorem C2_recvFrameStream_flow_control_witness:
  "recvFrameStream toyEnv (serverCredit10\<lparr>flow := zeroFlow\<lparr>maxRecv := 2\<rparr>\<rparr>) [8, 0, 0, 5, 6, 7] 0
     = (Inl errFlowControl, serverCredit10\<lparr>flow := zeroFlow\<lparr>maxRecv := 2\<rparr>\<rparr>)
   \<and> fst (recvFrameStream toyEnv serverCredit10 [8, 0, 0, 5, 6, 7] 0) = Inr 6
   \<and> totalRecv (flow (snd (recvFrameStream toyEnv serverCredit10 [8, 0, 0, 5, 6, 7] 0))) = 3"
proof -
  have d: "decodeStream (co toyEnv) [8, 0, 0, 5, 6, 7] = Inr (streamFrame 0 [5, 6, 7] 0 False, 6)"
    by (simp add: toy_defs)
  have p: "\<not> (isStreamLocal (sf_streamID (streamFrame 0 [5, 6, 7] 0 False)) (isClient c)
              \<and> \<not> isStreamBidi (sf_streamID (streamFrame 0 [5, 6, 7] 0 False)))" for c :: conn0
    by (simp add: isStreamBidi_def)
  show ?thesis
    using C2_recvFrameStream_flow_control [OF d p, of "serverCredit10\<lparr>flow := zeroFlow\<lparr>maxRecv := 2\<rparr>\<rparr>" 0]
      C2_recvFrameStream_flow_control [OF d p, of serverCredit10 0]
    by (simp add: conn_defs ingest_defs toy_defs)
qed

section \<open>C3: fatal failures while ingesting\<close>




section \<open>C4: packets of PADDING and ACK frames\<close>



section \<open>C5: the Retry packet\<close>

text \<open>
  C5: a client in the Attempted state that has processed no Retry receives a Retry packet
  whose destination connection ID is the client's source connection ID and whose source
  connection ID differs from the client's destination connection ID, and whose body
  decodes. With a token that is not empty and an integrity tag that verifies against the
  previous destination connection ID, the client stores the token, keeps the old
  destination connection ID as original destination connection ID, takes the source
  connection ID of the packet as destination and as retry source connection ID, derives
  the Initial keys from it (as a client: the server's protection opens, the client's
  seals), resets the Initial packet number space, the unacknowledged Initial data and the
  TLS handshake, forgets the peer's connection ID and sets didRetry, after which every
  Retry packet is dropped unread. With an empty token, or a tag that does not verify, the
  packet fails with the invalid-token error and the connection is as it was.
\<close>

theorem C5_recvPacketRetry:
  assumes "isClient s" and "\<not> didRetry s" and "state s = stateAttempted"
    and "hdr_dcid (header p) = scid s" and "hdr_scid (header p) \<noteq> dcid s"
    and "decodeBody (co env) p b = Inr (n, p')"
  shows "(p_token p' \<noteq> [] \<and> verifyRetryIntegrity (co env) b (dcid s) \<longrightarrow>
            fst (recvPacketRetry env s b p now) = Inr (length b)
          \<and> token (snd (recvPacketRetry env s b p now)) = p_token p'
          \<and> odcid (snd (recvPacketRetry env s b p now)) = dcid s
          \<and> dcid (snd (recvPacketRetry env s b p now)) = hdr_scid (header p')
          \<and> rscid (snd (recvPacketRetry env s b p now)) = hdr_scid (header p')
          \<and> packetNumberSpaces (snd (recvPacketRetry env s b p now)) packetSpaceInitial
              = space_reset (sp env)
                  ((packetNumberSpaces s packetSpaceInitial)
                     \<lparr>opener := Some (snd (initialAEAD (sp env) (hdr_scid (header p')))),
                      sealer := Some (fst (initialAEAD (sp env) (hdr_scid (header p'))))\<rparr>)
          \<and> derivedInitialSecrets (snd (recvPacketRetry env s b p now))
          \<and> recovery (snd (recvPacketRetry env s b p now))
              = dropUnackedData (ro env) (recovery s) packetSpaceInitial
          \<and> handshake (snd (recvPacketRetry env s b p now))
              = setTransportParams (tls env) (hs_reset (tls env) (handshake s)) (localParams s)
          \<and> \<not> gotPeerCID (snd (recvPacketRetry env s b p now))
          \<and> didRetry (snd (recvPacketRetry env s b p now))
          \<and> (\<forall>b2 p2 now2.
                recvPacketRetry env (snd (recvPacketRetry env s b p now)) b2 p2 now2
                  = (Inr (length b2), snd (recvPacketRetry env s b p now))))
       \<and> (p_token p' = [] \<or> \<not> verifyRetryIntegrity (co env) b (dcid s) \<longrightarrow>
            recvPacketRetry env s b p now = (Inl errInvalidToken, s))"
  using assms
  by (auto simp: recvPacketRetry_def resetInitial_def deriveInitialKeyMaterial_def setSpace_def
      split: prod.splits)

theorem C5_recvPacketRetry_witness:
  "token (snd (recvPacketRetry toyEnv clientAttempted [3, 7, 7] retryPacket 0)) = [7, 7]
   \<and> odcid (snd (recvPacketRetry toyEnv clientAttempted [3, 7, 7] retryPacket 0)) = [2]
   \<and> dcid (snd (recvPacketRetry toyEnv clientAttempted [3, 7, 7] retryPacket 0)) = [3]
   \<and> rscid (snd (recvPacketRetry toyEnv clientAttempted [3, 7, 7] retryPacket 0)) = [3]
   \<and> didRetry (snd (recvPacketRetry toyEnv clientAttempted [3, 7, 7] retryPacket 0))
   \<and> recvPacketRetry toyEnv clientAttempted [3] retryPacket 0
       = (Inl errInvalidToken, clientAttempted)"
proof -
  have h: "isClient clientAttempted" "\<not> didRetry clientAttempted"
    "state clientAttempted = stateAttempted"
    "hdr_dcid (header retryPacket) = scid clientAttempted"
    "hdr_scid (header retryPacket) \<noteq> dcid clientAttempted"
    by (simp_all add: conn_defs)
  have d1: "decodeBody (co toyEnv) retryPacket [3, 7, 7]
              = Inr (2, retryPacket\<lparr>p_token := [7, 7], headerLen := 1\<rparr>)"
    and d2: "decodeBody (co toyEnv) retryPacket [3]
              = Inr (0, retryPacket\<lparr>p_token := [], headerLen := 1\<rparr>)"
    by (simp_all add: toy_defs)
  have v: "verifyRetryIntegrity (co toyEnv) [3, 7, 7] (dcid clientAttempted)"
    by (simp add: toy_defs)
  show ?thesis
    using C5_recvPacketRetry [OF h d1, of 0] C5_recvPacketRetry [OF h d2, of 0] v
    by (simp add: conn_defs)
qed

section \<open>C6: the first Handshake packet at a server\<close>

text \<open>
  C6, as stated, fails: the transition is taken only if the connection is still Attempted
  once the frames of the packet are processed. A server in the Attempted state receives a
  Handshake packet with a CRYPTO frame that completes the handshake: the packet is
  processed without an error, the connection is Active and not Handshake, and the Initial
  packet number space still has its keys.
\<close>

theorem C6_frames_move_state_counterexample:
  "\<not> isClient serverAttempted \<and> state serverAttempted = stateAttempted
   \<and> map_option fst (Write 1 finishingEnv serverAttempted [2, 6] 5) = Some (2, None)
   \<and> state (snd (the (Write 1 finishingEnv serverAttempted [2, 6] 5))) = stateActive
   \<and> opener (packetNumberSpaces (snd (the (Write 1 finishingEnv serverAttempted [2, 6] 5)))
               packetSpaceInitial) = Some ()"
  by (simp add: conn_defs ingest_defs toy_defs frameType_defs)

text \<open>
  C6, amended: for every server connection, processing a received Handshake packet
  successfully (the connection IDs of the header match, the packet decrypts, it is not a
  duplicate, all its frames are processed without an error), with the connection in the
  Attempted state once the frames are processed, transitions the connection to the
  Handshake state and drops the Initial packet number space: the space is the dropped one
  and the recovery module has discarded the unacknowledged Initial data.
\<close>

theorem C6_handshake_packet_drops_initial:
  assumes "\<not> isClient s"
    and "hdr_dcid (header p) = scid s" and "hdr_scid (header p) = dcid s"
    and "canDecrypt (packetNumberSpaces s packetSpaceHandshake)"
    and "decryptPacket (sp env) (packetNumberSpaces s packetSpaceHandshake) b p
           = Inr (payload, len, p')"
    and "\<not> isPacketReceived (sp env) (packetNumberSpaces s packetSpaceHandshake) (packetNumber p')"
    and "recvFrames fuel env s payload packetSpaceHandshake now = Some (None, s1)"
    and "state s1 = stateAttempted"
  shows "\<exists>s'. recvPacketHandshake fuel env s b p now = Some (Inr len, s')
           \<and> state s' = stateHandshake
           \<and> packetNumberSpaces s' packetSpaceInitial
               = space_drop (sp env) (packetNumberSpaces s1 packetSpaceInitial)
           \<and> recovery s'
               = dropUnackedData (ro env)
                   (snd (drainAcked (ro env) (recovery s1) packetSpaceHandshake))
                   packetSpaceInitial"
proof -
  have "\<not> isClient s1"
    using assms(1,7) kept_recvFrames_loop [of fuel env s payload packetSpaceHandshake now False]
    by (simp add: recvFrames_def)
  with assms show ?thesis
    by (simp add: recvPacketHandshake_def recvPacket_def packetProcessed_def Let_def
        addressValidated_def armIdleTimer_def dropPacketSpace_def setSpace_def
        fields_processAckedPackets)
qed

theorem C6_handshake_packet_drops_initial_witness:
  "recvFrames 1 toyEnv (serverAttempted\<lparr>dcid := []\<rparr>) [1] packetSpaceHandshake 5
     = Some (None, (serverAttempted\<lparr>dcid := []\<rparr>)
          \<lparr>packetNumberSpaces := (\<lambda>space. keyedSpace)
             (packetSpaceHandshake := keyedSpace\<lparr>ackElicited := True\<rparr>)\<rparr>)
   \<and> map_option fst
        (recvPacketHandshake 1 toyEnv (serverAttempted\<lparr>dcid := []\<rparr>) [2, 1] zeroPacket 5)
       = Some (Inr 2)
   \<and> state (snd (the
        (recvPacketHandshake 1 toyEnv (serverAttempted\<lparr>dcid := []\<rparr>) [2, 1] zeroPacket 5)))
       = stateHandshake
   \<and> opener (packetNumberSpaces (snd (the
        (recvPacketHandshake 1 toyEnv (serverAttempted\<lparr>dcid := []\<rparr>) [2, 1] zeroPacket 5)))
        packetSpaceInitial) = None"
proof -
  have f: "recvFrames 1 toyEnv (serverAttempted\<lparr>dcid := []\<rparr>) [1] packetSpaceHandshake 5
     = Some (None, (serverAttempted\<lparr>dcid := []\<rparr>)
          \<lparr>packetNumberSpaces := (\<lambda>space. keyedSpace)
             (packetSpaceHandshake := keyedSpace\<lparr>ackElicited := True\<rparr>)\<rparr>)"
    by (simp add: conn_defs ingest_defs toy_defs frameType_defs)
  have h: "\<not> isClient (serverAttempted\<lparr>dcid := []\<rparr>)"
    "hdr_dcid (header zeroPacket) = scid (serverAttempted\<lparr>dcid := []\<rparr>)"
    "hdr_scid (header zeroPacket) = dcid (serverAttempted\<lparr>dcid := []\<rparr>)"
    "canDecrypt (packetNumberSpaces (serverAttempted\<lparr>dcid := []\<rparr>) packetSpaceHandshake)"
    "decryptPacket (sp toyEnv)
       (packetNumberSpaces (serverAttempted\<lparr>dcid := []\<rparr>) packetSpaceHandshake) [2, 1] zeroPacket
       = Inr ([1], 2, zeroPacket)"
    "\<not> isPacketReceived (sp toyEnv)
         (packetNumberSpaces (serverAttempted\<lparr>dcid := []\<rparr>) packetSpaceHandshake)
         (packetNumber zeroPacket)"
    by (simp_all add: conn_defs toy_defs canDecrypt_def)
  have a: "state ((serverAttempted\<lparr>dcid := []\<rparr>)
          \<lparr>packetNumberSpaces := (\<lambda>space. keyedSpace)
             (packetSpaceHandshake := keyedSpace\<lparr>ackElicited := True\<rparr>)\<rparr>) = stateAttempted"
    by (simp add: conn_defs)
  from C6_handshake_packet_drops_initial [OF h f a] obtain s' where
    r: "recvPacketHandshake 1 toyEnv (serverAttempted\<lparr>dcid := []\<rparr>) [2, 1] zeroPacket 5
          = Some (Inr 2, s')"
    and st: "state s' = stateHandshake"
    and ps: "packetNumberSpaces s' packetSpaceInitial
               = space_drop (sp toyEnv)
                   (packetNumberSpaces
                      ((serverAttempted\<lparr>dcid := []\<rparr>)
                         \<lparr>packetNumberSpaces := (\<lambda>space. keyedSpace)
                            (packetSpaceHandshake := keyedSpace\<lparr>ackElicited := True\<rparr>)\<rparr>)
                      packetSpaceInitial)"
    by blast
  have "opener (packetNumberSpaces s' packetSpaceInitial) = None"
    unfolding ps by (simp add: toy_defs)
  with r st f show ?thesis by simp
qed

section \<open>C7: lost frames\<close>

text \<open>
  C7: processLostPackets drains the lost frames of the space from the recovery module and
  reinjects each frame by its kind. A lost CRYPTO frame pushes its data back onto the send
  buffer of the CRYPTO stream of the space, at the offset of the frame; a lost STREAM frame
  pushes its data back onto the send buffer of its stream, at the offset and with the fin
  flag of the frame; a lost ACK frame sets the ack-elicited flag of the space; a lost
  HANDSHAKE_DONE frame clears the handshake-confirmed flag, so that an Active server has
  the frame to send again.
\<close>

theorem C7_processLostPackets_reinjects:
  "(drainLost (ro env) (recovery s) space = (fs, r) \<longrightarrow>
      processLostPackets env s space = fold (lostFrame env space) fs (s\<lparr>recovery := r\<rparr>))
   \<and> cryptoStream (packetNumberSpaces (lostFrame env space (F_crypto (cryptoFrame d off)) s) space)
       = (cryptoStream (packetNumberSpaces s space))
           \<lparr>st_send := snd (send_push (so env) (st_send (cryptoStream (packetNumberSpaces s space)))
                          d off False)\<rparr>
   \<and> (streams_get (streams s) sid = Some st \<longrightarrow>
        streams_get (streams (lostFrame env space (F_stream (streamFrame sid d off fin)) s)) sid
          = Some (st\<lparr>st_send := snd (send_push (so env) (st_send st) d off fin)\<rparr>))
   \<and> ackElicited (packetNumberSpaces (lostFrame env space (F_ack a) s) space)
   \<and> \<not> handshakeConfirmed (lostFrame env space F_handshakeDone s)
   \<and> (\<not> isClient s \<and> state s = stateActive \<longrightarrow>
        sendFrameHandshakeDone (lostFrame env space F_handshakeDone s) = Some F_handshakeDone)"
  by (simp add: processLostPackets_def lostFrame_def setSpace_def setStream_def streams_get_def
      sendFrameHandshakeDone_def)

theorem C7_processLostPackets_reinjects_witness:
  "ackElicited (packetNumberSpaces
      (processLostPackets toyEnv
         (serverActive\<lparr>handshakeConfirmed := True,
            recovery := (zeroRecovery ())
              \<lparr>lost := (\<lambda>space. [F_ack (ackFrame 3 0 [(0, 3)]), F_handshakeDone])\<rparr>\<rparr>)
         packetSpaceApplication)
      packetSpaceApplication)
   \<and> sendFrameHandshakeDone
        (processLostPackets toyEnv
           (serverActive\<lparr>handshakeConfirmed := True,
              recovery := (zeroRecovery ())
                \<lparr>lost := (\<lambda>space. [F_ack (ackFrame 3 0 [(0, 3)]), F_handshakeDone])\<rparr>\<rparr>)
           packetSpaceApplication)
       = Some F_handshakeDone"
proof -
  let ?c = "serverActive\<lparr>handshakeConfirmed := True,
              recovery := (zeroRecovery ())
                \<lparr>lost := (\<lambda>space. [F_ack (ackFrame 3 0 [(0, 3)]), F_handshakeDone])\<rparr>\<rparr>"
  let ?r = "(zeroRecovery ())\<lparr>lost := (\<lambda>space. [F_ack (ackFrame 3 0 [(0, 3)]), F_handshakeDone])
               (packetSpaceApplication := [])\<rparr>"
  let ?c1 = "lostFrame toyEnv packetSpaceApplication (F_ack (ackFrame 3 0 [(0, 3)]))
               (?c\<lparr>recovery := ?r\<rparr>)"
  have d: "drainLost (ro toyEnv) (recovery ?c) packetSpaceApplication
             = ([F_ack (ackFrame 3 0 [(0, 3)]), F_handshakeDone], ?r)"
    by (simp add: toy_defs zeroRecovery_def)
  have p: "processLostPackets toyEnv ?c packetSpaceApplication
             = lostFrame toyEnv packetSpaceApplication F_handshakeDone ?c1"
    using C7_processLostPackets_reinjects [where env = toyEnv and s = ?c
        and space = packetSpaceApplication and r = ?r
        and fs = "[F_ack (ackFrame 3 0 [(0, 3)]), F_handshakeDone]"] d
    by simp
  have a: "ackElicited (packetNumberSpaces ?c1 packetSpaceApplication)"
    using C7_processLostPackets_reinjects [where env = toyEnv and s = "?c\<lparr>recovery := ?r\<rparr>"
        and space = packetSpaceApplication and a = "ackFrame 3 0 [(0, 3)]"]
    by blast
  have s1: "\<not> isClient ?c1 \<and> state ?c1 = stateActive"
    by (simp add: lostFrame_def setSpace_def conn_defs)
  have h: "sendFrameHandshakeDone (lostFrame toyEnv packetSpaceApplication F_handshakeDone ?c1)
             = Some F_handshakeDone"
    using C7_processLostPackets_reinjects [where env = toyEnv and s = ?c1
        and space = packetSpaceApplication] s1
    by blast
  have a': "ackElicited (packetNumberSpaces
              (lostFrame toyEnv packetSpaceApplication F_handshakeDone ?c1)
              packetSpaceApplication)"
    using a by (simp add: lostFrame_def)
  show ?thesis unfolding p using a' h by simp
qed

section \<open>C8: the idle timer\<close>

text \<open>
  C8, as stated, fails in two places. With no idle timeout configured (a local max idle
  timeout of zero) the first ack-eliciting packet since the last receipt, sent at instant
  7, leaves the idle deadline unset. And a packet that is received but cannot be decrypted
  is dropped without clearing the ackElicitingSent flag.
\<close>

theorem C8_idle_timer_counterexample:
  "ackEliciting \<lparr>op_packetNumber = 0, op_frames = [F_ping], timeSent = 7, op_size = 30,
                  ackEliciting = True\<rparr>
   \<and> \<not> ackElicitingSent serverActive
   \<and> idleTimer (onPacketSent toyEnv serverActive
        \<lparr>op_packetNumber = 0, op_frames = [F_ping], timeSent = 7, op_size = 30,
          ackEliciting = True\<rparr> packetSpaceApplication)
       \<noteq> time_Add 7 (MaxIdleTimeout (localParams serverActive))
   \<and> recvPacket 1 toyEnv (serverActive\<lparr>ackElicitingSent := True\<rparr>) [2, 1] zeroPacket
        packetSpaceHandshake 9
       = Some (Inr 2, serverActive\<lparr>ackElicitingSent := True\<rparr>)"
  by (simp add: onPacketSent_def recvPacket_def canDecrypt_def conn_defs time_Add_def Let_def
      setSpace_def)

text \<open>
  C8, amended: for every sent packet, the idle deadline is set to the send time of the
  packet plus the local max idle timeout if and only if the packet is ack-eliciting, no
  ack-eliciting packet has been sent since a packet was last processed (the
  ackElicitingSent flag is clear) and the local max idle timeout is positive; otherwise the
  idle deadline is not touched. The flag is set after an ack-eliciting packet. A received
  packet that is decrypted, is not a duplicate and whose frames are processed without an
  error clears the flag.
\<close>

theorem C8_idle_timer_rearmed:
  "idleTimer (onPacketSent env s op space)
     = (if ackEliciting op \<and> \<not> ackElicitingSent s \<and> 0 < MaxIdleTimeout (localParams s)
        then time_Add (timeSent op) (MaxIdleTimeout (localParams s)) else idleTimer s)
   \<and> ackElicitingSent (onPacketSent env s op space) = (ackElicitingSent s \<or> ackEliciting op)
   \<and> (canDecrypt (packetNumberSpaces s space)
        \<and> decryptPacket (sp env) (packetNumberSpaces s space) b p = Inr (payload, len, p')
        \<and> \<not> isPacketReceived (sp env) (packetNumberSpaces s space) (packetNumber p')
        \<and> recvFrames fuel env s payload space now = Some (None, s1)
      \<longrightarrow> (\<exists>s'. recvPacket fuel env s b p space now = Some (Inr len, s')
                \<and> \<not> ackElicitingSent s'))"
  by (auto simp: onPacketSent_def Let_def setSpace_def packetProcessed_def recvPacket_def)

theorem C8_idle_timer_rearmed_witness:
  "idleTimer (onPacketSent toyEnv
        (serverActive\<lparr>localParams := zeroParams\<lparr>MaxIdleTimeout := 30\<rparr>\<rparr>)
        \<lparr>op_packetNumber = 0, op_frames = [F_ping], timeSent = 7, op_size = 30,
          ackEliciting = True\<rparr> packetSpaceApplication) = 37
   \<and> idleTimer (onPacketSent toyEnv
        (serverActive\<lparr>localParams := zeroParams\<lparr>MaxIdleTimeout := 30\<rparr>,
                      ackElicitingSent := True, idleTimer := 20\<rparr>)
        \<lparr>op_packetNumber = 1, op_frames = [F_ping], timeSent = 8, op_size = 30,
          ackEliciting = True\<rparr> packetSpaceApplication) = 20
   \<and> \<not> ackElicitingSent (snd (the
        (recvPacket 1 toyEnv (serverActive\<lparr>ackElicitingSent := True\<rparr>) [0x40, 1] zeroPacket
           packetSpaceApplication 9)))"
proof -
  let ?c = "serverActive\<lparr>ackElicitingSent := True\<rparr>"
  have f: "recvFrames 1 toyEnv ?c [1] packetSpaceApplication 9
             = Some (None, ?c\<lparr>packetNumberSpaces := (packetNumberSpaces unitConn)
                  (packetSpaceApplication := keyedSpace\<lparr>ackElicited := True\<rparr>)\<rparr>)"
    by (simp add: conn_defs ingest_defs toy_defs frameType_defs)
  have h: "canDecrypt (packetNumberSpaces ?c packetSpaceApplication)"
    "decryptPacket (sp toyEnv) (packetNumberSpaces ?c packetSpaceApplication) [0x40, 1] zeroPacket
       = Inr ([1], 2, zeroPacket)"
    "\<not> isPacketReceived (sp toyEnv) (packetNumberSpaces ?c packetSpaceApplication)
         (packetNumber zeroPacket)"
    by (simp_all add: conn_defs toy_defs canDecrypt_def)
  note t = C8_idle_timer_rearmed [where env = toyEnv and s = ?c and space = packetSpaceApplication
      and b = "[0x40, 1]" and p = zeroPacket and payload = "[1]" and len = 2 and p' = zeroPacket
      and fuel = 1 and now = 9]
  from t h f obtain s' where
    r: "recvPacket 1 toyEnv ?c [0x40, 1] zeroPacket packetSpaceApplication 9 = Some (Inr 2, s')"
    and c: "\<not> ackElicitingSent s'"
    by blast
  show ?thesis
    using C8_idle_timer_rearmed [where env = toyEnv
        and s = "serverActive\<lparr>localParams := zeroParams\<lparr>MaxIdleTimeout := 30\<rparr>\<rparr>"
        and op = "\<lparr>op_packetNumber = 0, op_frames = [F_ping], timeSent = 7, op_size = 30,
                   ackEliciting = True\<rparr>" and space = packetSpaceApplication]
      C8_idle_timer_rearmed [where env = toyEnv
        and s = "serverActive\<lparr>localParams := zeroParams\<lparr>MaxIdleTimeout := 30\<rparr>,
                      ackElicitingSent := True, idleTimer := 20\<rparr>"
        and op = "\<lparr>op_packetNumber = 1, op_frames = [F_ping], timeSent = 8, op_size = 30,
                   ackEliciting = True\<rparr>" and space = packetSpaceApplication]
      r c
    by (simp add: conn_defs time_Add_def)
qed

section \<open>C9: the constructors\<close>

text \<open>
  C9, as stated, fails in its last case: a client whose random source cannot fill the
  first destination connection ID gets the error of the random source and no connection,
  with a configuration at hand and a source connection ID of one byte.
\<close>

theorem C9_random_source_counterexample:
  "length [1 :: 8 word] \<le> 20
   \<and> Connect toyEnv 0 (Inl (externalError ''unexpected EOF'')) [1] (Some toyConfig)
       = Inl (externalError ''unexpected EOF'')"
  by (simp add: Connect_def newConn_def MaxCIDLength_def Let_def)

text \<open>
  C9, amended: Connect(scid, config) and Accept(scid, odcid, config) fail with an
  InternalError and return no connection when config is nil. With a config, they fail with
  a ProtocolViolation and return no connection when scid (or, for Accept, odcid) is longer
  than 20 bytes. Otherwise Accept returns a connection in the Attempted state, and so does
  Connect when the random source has filled the first destination connection ID; when the
  random source fails, Connect fails with its error and returns no connection.
\<close>

theorem C9_constructors:
  "Connect env now rnd scid' None = Inl (newError InternalError (Text ''config required''))
   \<and> Accept env now rnd scid' odcid' None = Inl (newError InternalError (Text ''config required''))
   \<and> (20 < length scid' \<longrightarrow>
        Connect env now rnd scid' (Some cfg) = Inl (newError ProtocolViolation (Text ''cid too long'')))
   \<and> (20 < length scid' \<or> 20 < length odcid' \<longrightarrow>
        Accept env now rnd scid' odcid' (Some cfg)
          = Inl (newError ProtocolViolation (Text ''cid too long'')))
   \<and> (length scid' \<le> 20 \<and> rnd = Inr r \<longrightarrow>
        (\<exists>s. Connect env now rnd scid' (Some cfg) = Inr s \<and> state s = stateAttempted))
   \<and> (length scid' \<le> 20 \<and> rnd = Inl err \<longrightarrow> Connect env now rnd scid' (Some cfg) = Inl err)
   \<and> (length scid' \<le> 20 \<and> length odcid' \<le> 20 \<longrightarrow>
        (\<exists>s. Accept env now rnd scid' odcid' (Some cfg) = Inr s \<and> state s = stateAttempted))"
  by (simp add: Connect_def Accept_def newConn_def MaxCIDLength_def Let_def)

theorem C9_constructors_witness:
  "Connect toyEnv 0 (Inr (replicate 20 0)) (replicate 21 0) (Some toyConfig)
     = Inl (newError ProtocolViolation (Text ''cid too long''))
   \<and> Accept toyEnv 0 (Inr []) [1] (replicate 21 0) (Some toyConfig)
     = Inl (newError ProtocolViolation (Text ''cid too long''))
   \<and> map_sum id state (Connect toyEnv 0 (Inr (replicate 20 0)) [1] (Some toyConfig))
     = Inr stateAttempted
   \<and> map_sum id state (Accept toyEnv 0 (Inr []) [1] [2] (Some toyConfig)) = Inr stateAttempted"
proof -
  note t1 = C9_constructors [where env = toyEnv and now = 0 and rnd = "Inr (replicate 20 0)"
      and scid' = "replicate 21 0" and cfg = toyConfig]
  note t2 = C9_constructors [where env = toyEnv and now = 0 and rnd = "Inr []"
      and scid' = "[1]" and odcid' = "replicate 21 0" and cfg = toyConfig]
  note t3 = C9_constructors [where env = toyEnv and now = 0 and rnd = "Inr (replicate 20 0)"
      and scid' = "[1]" and cfg = toyConfig and r = "replicate 20 0"]
  note t4 = C9_constructors [where env = toyEnv and now = 0 and rnd = "Inr []"
      and scid' = "[1]" and odcid' = "[2]" and cfg = toyConfig]
  from t3 obtain s3 where
    c3: "Connect toyEnv 0 (Inr (replicate 20 0)) [1] (Some toyConfig) = Inr s3"
    and a3: "state s3 = stateAttempted"
    by auto
  from t4 obtain s4 where
    c4: "Accept toyEnv 0 (Inr []) [1] [2] (Some toyConfig) = Inr s4"
    and a4: "state s4 = stateAttempted"
    by auto
  show ?thesis using t1 t2 c3 a3 c4 a4 by simp
qed

section \<open>C10: a stream of the wrong initiator\<close>

text \<open>
  C10: for a stream ID that is not in the stream map and whose initiator bit (bit 0) is not
  that of the local role (the IDs a client opens are even, the IDs a server opens are odd),
  Stream(id) fails with a stream state error and leaves the stream map, and the rest of
  the connection, as it was: no stream is created.
\<close>

theorem C10_Stream_wrong_initiator:
  assumes "streams_get (streams s) sid = None" and "(sid AND 1 = 0) \<noteq> isClient s"
  shows "Stream env s sid
           = (Inl (newError StreamStateError (Sprint ''invalid type of stream '' sid)), s)"
  using assms by (simp add: Stream_def getOrCreateStream_def isStreamLocal_def)

theorem C10_Stream_wrong_initiator_witness:
  "streams_get (streams clientAttempted) 3 = None
   \<and> ((3 :: uint64) AND 1 = 0) \<noteq> isClient clientAttempted
   \<and> Stream toyEnv clientAttempted 3
       = (Inl (newError StreamStateError (Sprint ''invalid type of stream '' 3)),
          clientAttempted)
   \<and> streams_get (streams serverActive) 4 = None
   \<and> ((4 :: uint64) AND 1 = 0) \<noteq> isClient serverActive
   \<and> Stream toyEnv serverActive 4
       = (Inl (newError StreamStateError (Sprint ''invalid type of stream '' 4)), serverActive)"
proof -
  have h: "streams_get (streams clientAttempted) 3 = None"
    "((3 :: uint64) AND 1 = 0) \<noteq> isClient clientAttempted"
    "streams_get (streams serverActive) 4 = None"
    "((4 :: uint64) AND 1 = 0) \<noteq> isClient serverActive"
    by (simp_all add: conn_defs streams_get_def)
  show ?thesis
    using C10_Stream_wrong_initiator [OF h(1,2), of toyEnv]
      C10_Stream_wrong_initiator [OF h(3,4), of toyEnv] h
    by simp
qed

end
